theory Spec2Isabelle
  imports Complex_Main
begin

section \<open>Python and numpy primitives used by the converters\<close>

text \<open>
  Python floats (binary64) are modelled as real numbers: their rounding error, infinities
  and NaN are outside the model.  The sentinel \<open>float('inf')\<close> that the source uses
  as a "nothing yet" marker is the value \<open>None\<close> of an option type.  The one array
  of single precision, the merged height grid, is modelled with its rounding.
\<close>

text \<open>\<open>int(v)\<close> on a float truncates towards zero.\<close>

definition py_int :: "real \<Rightarrow> int" where
  "py_int v = (if 0 \<le> v then \<lfloor>v\<rfloor> else \<lceil>v\<rceil>)"

text \<open>
  \<open>np.arange(start, stop, step)\<close>: \<open>ceil((stop - start) / step)\<close> values
  \<open>start + k * step\<close>, none when that count is not positive.
\<close>

definition np_arange :: "real \<Rightarrow> real \<Rightarrow> real \<Rightarrow> real list" where
  "np_arange start stop step =
     map (\<lambda>k. start + real k * step) [0..<nat \<lceil>(stop - start) / step\<rceil>]"

text \<open>\<open>range(n)\<close> for a Python integer \<open>n\<close>; empty when \<open>n \<le> 0\<close>.\<close>

definition py_range :: "int \<Rightarrow> nat list" where
  "py_range n = [0..<nat n]"

text \<open>
  \<open>random.randint(a, b)\<close> returns an integer of \<open>[a, b]\<close>; which one is
  decided by the generator's state, here a natural number read from a tape of raw draws.
\<close>

definition randint :: "int \<Rightarrow> int \<Rightarrow> nat \<Rightarrow> int" where
  "randint a b raw = a + int (raw mod nat (b - a + 1))"

text \<open>
  \<open>round(v, 4)\<close>: the nearest multiple of \<open>1/10000\<close>, a tie going to the
  even neighbour.
\<close>

definition round_half_even :: "real \<Rightarrow> int" where
  "round_half_even v =
     (let f = \<lfloor>v\<rfloor>; d = v - of_int f
      in if d < 1 / 2 then f else if 1 / 2 < d then f + 1 else if even f then f else f + 1)"

definition py_round4 :: "real \<Rightarrow> real" where
  "py_round4 v = of_int (round_half_even (v * 10000)) / 10000"

section \<open>The parsed road-network document\<close>

text \<open>
  What the converters read from an OpenDRIVE document through ElementTree.  Each field is
  the result of the lookup the source performs: a numeric attribute read with a default
  (\<open>get("hdg", 0)\<close>) holds the number read or the default, an element or attribute that
  the source tests for absence is an option.  Documents that make a converter raise while
  it reads them (a primitive without \<open>x\<close> or \<open>y\<close>, an attribute that is not a
  number) are outside the model.
\<close>

record geometry =
  geo_x :: real
  geo_y :: real
  geo_hdg :: real
  geo_length :: real
  geo_elevation :: "real option"  \<comment> \<open>\<open>geometry.find(".//elevation")\<close>, its \<open>get("a", 0)\<close>\<close>

record lane =
  lane_type :: "string option"  \<comment> \<open>\<open>lane.get("type")\<close>\<close>
  lane_width_attr :: "string option"  \<comment> \<open>\<open>lane.get("width")\<close>\<close>
  lane_width_a :: "real option"  \<comment> \<open>\<open>lane.find(".//width")\<close>, its \<open>get("a", 0)\<close>\<close>
  lane_l_neighbor_id :: "string option"  \<comment> \<open>\<open>lane.get("l_neighbor_id")\<close>\<close>
  lane_r_neighbor_id :: "string option"  \<comment> \<open>\<open>lane.get("r_neighbor_id")\<close>\<close>
  lane_neighbors :: "(string option \<times> string option) option"
    \<comment> \<open>\<open>lane.find("neighbors")\<close>, its \<open>left\<close> and \<open>right\<close> attributes\<close>

record lane_section =
  ls_lane_offset :: "real option"  \<comment> \<open>\<open>lane_section.find(".//laneOffset")\<close>, its \<open>get("a", 0)\<close>\<close>
  ls_lanes :: "lane list"

record road =
  road_geometry :: "geometry list"
  road_lane_sections :: "lane_section list"
  road_predecessor :: "string option"
    \<comment> \<open>\<open>elementId\<close> of \<open>road.find(".//link/predecessor")\<close>, \<open>None\<close> when either is missing\<close>
  road_successor :: "string option"

type_synonym document = "road list"

text \<open>The lanes of a road in traversal order, each with its lane section.\<close>

definition road_lanes :: "road \<Rightarrow> (lane_section \<times> lane) list" where
  "road_lanes r = concat (map (\<lambda>ls. map (\<lambda>l. (ls, l)) (ls_lanes ls)) (road_lane_sections r))"

text \<open>The end point of a primitive, a straight segment at its start heading.\<close>

definition x_end :: "geometry \<Rightarrow> real" where
  "x_end g = geo_x g + geo_length g * cos (geo_hdg g)"

definition y_end :: "geometry \<Rightarrow> real" where
  "y_end g = geo_y g + geo_length g * sin (geo_hdg g)"

section \<open>Map bounds and the transform matrix (xodr2npy\_area\&image2city.py)\<close>

type_synonym bounds = "real \<times> real \<times> real \<times> real"

text \<open>
  The four running extrema \<open>(min_x, max_x, min_y, max_y)\<close> start at
  \<open>(inf, -inf, inf, -inf)\<close>.  The first primitive makes all four finite at once and
  nothing makes them infinite again, so the accumulator is \<open>None\<close> (all four still
  infinite) or \<open>Some\<close> of four reals.  Folding a primitive in (lines 24 to 35):
\<close>

definition fold_geometry :: "bounds option \<Rightarrow> geometry \<Rightarrow> bounds option" where
  "fold_geometry acc g =
     (case acc of
        None \<Rightarrow> Some (min (geo_x g) (x_end g), max (geo_x g) (x_end g),
                       min (geo_y g) (y_end g), max (geo_y g) (y_end g))
      | Some (min_x, max_x, min_y, max_y) \<Rightarrow>
          Some (min (min min_x (geo_x g)) (x_end g), max (max max_x (geo_x g)) (x_end g),
                min (min min_y (geo_y g)) (y_end g), max (max max_y (geo_y g)) (y_end g)))"

text \<open>
  Inflating by a lane (lines 39 to 54); \<open>inf - total_width\<close> is still \<open>inf\<close>.
\<close>

definition total_width :: "lane_section \<Rightarrow> lane \<Rightarrow> real" where
  "total_width ls l =
     \<bar>case ls_lane_offset ls of None \<Rightarrow> 0 | Some a \<Rightarrow> a\<bar> +
     \<bar>case lane_width_a l of None \<Rightarrow> 0 | Some a \<Rightarrow> a\<bar>"

definition inflate_lane :: "bounds option \<Rightarrow> lane_section \<times> lane \<Rightarrow> bounds option" where
  "inflate_lane acc sl =
     (case acc of
        None \<Rightarrow> None
      | Some (min_x, max_x, min_y, max_y) \<Rightarrow>
          (let w = total_width (fst sl) (snd sl)
           in Some (min_x - w, max_x + w, min_y - w, max_y + w)))"

definition bounds_road :: "bounds option \<Rightarrow> road \<Rightarrow> bounds option" where
  "bounds_road acc r = foldl inflate_lane (foldl fold_geometry acc (road_geometry r)) (road_lanes r)"

definition calculate_map_bounds :: "document \<Rightarrow> bounds" where
  "calculate_map_bounds doc =
     (case foldl bounds_road None doc of None \<Rightarrow> (0, 1, 0, 1) | Some b \<Rightarrow> b)"

definition calculate_transform_matrix :: "real \<Rightarrow> real \<Rightarrow> real list list" where
  "calculate_transform_matrix min_x min_y = [[1, 0, - min_x], [0, 1, - min_y], [0, 0, 1]]"

text \<open>The matrix applied to the homogeneous point \<open>(x, y, 1)\<close>.\<close>

definition apply_transform :: "real list list \<Rightarrow> real \<times> real \<Rightarrow> real \<times> real" where
  "apply_transform T p =
     (T ! 0 ! 0 * fst p + T ! 0 ! 1 * snd p + T ! 0 ! 2,
      T ! 1 ! 0 * fst p + T ! 1 ! 1 * snd p + T ! 1 ! 2)"

section \<open>The bounding-box table (xodr2npy\_bbox.py)\<close>

definition bbox_row :: "geometry \<Rightarrow> real list" where
  "bbox_row g =
     (let width = 3.5
      in [geo_x g - width / 2, geo_y g - width / 2, x_end g + width / 2, y_end g + width / 2])"

definition xodr_to_bbox_table :: "document \<Rightarrow> real list list" where
  "xodr_to_bbox_table doc = concat (map (\<lambda>r. map bbox_row (road_geometry r)) doc)"

section \<open>Grids\<close>

text \<open>
  A numpy array of shape \<open>(rows, cols)\<close> is a list of rows.  A write is guarded by
  the range check of the source; a sample outside the grid is dropped.
\<close>

definition grid_write :: "int \<Rightarrow> int \<Rightarrow> 'a list list \<Rightarrow> (int \<times> int) \<times> 'a \<Rightarrow> 'a list list" where
  "grid_write rows cols grid w =
     (let grid_y = fst (fst w); grid_x = snd (fst w)
      in if 0 \<le> grid_x \<and> grid_x < cols \<and> 0 \<le> grid_y \<and> grid_y < rows
         then grid[nat grid_y := (grid ! nat grid_y)[nat grid_x := snd w]]
         else grid)"

text \<open>
  A loop nest that only writes is the list of its writes \<open>((grid_y, grid_x), value)\<close>
  in execution order, applied from left to right.
\<close>

definition grid_writes :: "int \<Rightarrow> int \<Rightarrow> 'a list list \<Rightarrow> ((int \<times> int) \<times> 'a) list \<Rightarrow> 'a list list" where
  "grid_writes rows cols grid ws = foldl (grid_write rows cols) grid ws"

definition np_full :: "int \<Rightarrow> int \<Rightarrow> 'a \<Rightarrow> 'a list list" where
  "np_full rows cols v = replicate (nat rows) (replicate (nat cols) v)"

section \<open>The drivable-area grid of one document (xodr2npy\_area\&image2city.py)\<close>

text \<open>
  The samples of one lane of one primitive (lines 123 to 132): \<open>x_start\<close> and
  \<open>y_start\<close> are already translated by the offset.
\<close>

definition lateral_cells ::
  "real \<Rightarrow> real \<Rightarrow> real \<Rightarrow> real \<Rightarrow> real \<Rightarrow> ((int \<times> int) \<times> int) list" where
  "lateral_cells resolution hdg lane_width x y =
     map (\<lambda>w. ((py_int ((y - w * cos hdg) / resolution),
                 py_int ((x + w * sin hdg) / resolution)), 1))
       (np_arange (- lane_width) (lane_width + resolution) resolution)"

definition centre_x :: "real \<Rightarrow> real \<Rightarrow> real \<Rightarrow> nat \<Rightarrow> real" where
  "centre_x resolution hdg x_start i = x_start + real i * resolution * cos hdg"

definition centre_y :: "real \<Rightarrow> real \<Rightarrow> real \<Rightarrow> nat \<Rightarrow> real" where
  "centre_y resolution hdg y_start i = y_start + real i * resolution * sin hdg"

definition lane_writes ::
  "real \<Rightarrow> real \<Rightarrow> real \<Rightarrow> geometry \<Rightarrow> lane \<Rightarrow> ((int \<times> int) \<times> int) list" where
  "lane_writes resolution offset_x offset_y g l =
     (let x_start = geo_x g + offset_x; y_start = geo_y g + offset_y;
          hdg = geo_hdg g;
          lane_width = (case lane_width_a l of None \<Rightarrow> 0 | Some a \<Rightarrow> a)
      in if lane_width = 0 \<or> lane_type l \<noteq> Some ''driving'' then []
         else concat (map (\<lambda>i. lateral_cells resolution hdg lane_width
                                  (centre_x resolution hdg x_start i)
                                  (centre_y resolution hdg y_start i))
                (py_range (py_int (geo_length g / resolution)))))"

definition document_writes :: "real \<Rightarrow> real \<Rightarrow> real \<Rightarrow> document \<Rightarrow> ((int \<times> int) \<times> int) list" where
  "document_writes resolution offset_x offset_y doc =
     concat (map (\<lambda>r. concat (map (\<lambda>g. concat (map (\<lambda>sl. lane_writes resolution offset_x offset_y g (snd sl))
                                                  (road_lanes r)))
                               (road_geometry r)))
               doc)"

text \<open>
  The grid shape of lines 92 to 97.  Any exception (a zero resolution, a negative
  dimension passed to \<open>np.zeros\<close>) makes the function return \<open>(None, None)\<close>.
\<close>

definition grid_shape :: "bounds \<Rightarrow> real \<Rightarrow> int \<times> int" where
  "grid_shape b resolution =
     (case b of (min_x, max_x, min_y, max_y) \<Rightarrow>
        (py_int ((max_y - min_y) / resolution), py_int ((max_x - min_x) / resolution)))"

definition parse_xodr_to_driveable_area ::
  "document \<Rightarrow> real \<Rightarrow> (int list list \<times> real list list) option" where
  "parse_xodr_to_driveable_area doc resolution =
     (case calculate_map_bounds doc of (min_x, max_x, min_y, max_y) \<Rightarrow>
        (case grid_shape (min_x, max_x, min_y, max_y) resolution of (grid_height, grid_width) \<Rightarrow>
           if resolution = 0 \<or> grid_height < 0 \<or> grid_width < 0 then None
           else Some (grid_writes grid_height grid_width (np_full grid_height grid_width 0)
                        (document_writes resolution (- min_x) (- min_y) doc),
                      calculate_transform_matrix min_x min_y)))"

section \<open>The merged drivable-area grid (xodr2npy\_area\&image2city\_multi.py)\<close>

text \<open>
  First pass (lines 168 to 185): the per-document bounds, which are finite by the fallback,
  are merged with min and max; \<open>None\<close> is the initial \<open>(inf, -inf, inf, -inf)\<close>.
\<close>

definition merge_bounds :: "bounds option \<Rightarrow> bounds \<Rightarrow> bounds option" where
  "merge_bounds acc b =
     (case b of (min_x, max_x, min_y, max_y) \<Rightarrow>
        (case acc of
           None \<Rightarrow> Some (min_x, max_x, min_y, max_y)
         | Some (global_min_x, global_max_x, global_min_y, global_max_y) \<Rightarrow>
             Some (min global_min_x min_x, max global_max_x max_x,
                   min global_min_y min_y, max global_max_y max_y)))"

definition global_bounds :: "document list \<Rightarrow> bounds option" where
  "global_bounds docs = foldl (\<lambda>acc doc. merge_bounds acc (calculate_map_bounds doc)) None docs"

text \<open>The shape \<open>(grid_rows, grid_cols)\<close> of lines 188 to 191.\<close>

definition global_grid_shape :: "bounds \<Rightarrow> real \<Rightarrow> int \<times> int" where
  "global_grid_shape b resolution =
     (case b of (global_min_x, global_max_x, global_min_y, global_max_y) \<Rightarrow>
        (\<lceil>(global_max_y - global_min_y) / resolution\<rceil> + 1,
         \<lceil>(global_max_x - global_min_x) / resolution\<rceil> + 1))"

text \<open>Second pass, the samples of one lane of one primitive (lines 211 to 241).\<close>

definition lane_writes_multi ::
  "real \<Rightarrow> real \<Rightarrow> real \<Rightarrow> geometry \<Rightarrow> lane \<Rightarrow> ((int \<times> int) \<times> int) list" where
  "lane_writes_multi resolution global_min_x global_min_y g l =
     (let x_start = geo_x g - global_min_x; y_start = geo_y g - global_min_y;
          hdg = geo_hdg g
      in if lane_type l \<noteq> Some ''driving'' then []
         else (case lane_width_a l of
                 None \<Rightarrow> []
               | Some lane_width \<Rightarrow>
                   (let steps = py_int (geo_length g / resolution)
                    in concat (map (\<lambda>step. lateral_cells resolution hdg lane_width
                                              (centre_x resolution hdg x_start step)
                                              (centre_y resolution hdg y_start step))
                         (py_range (steps + 1))))))"

definition document_writes_multi ::
  "real \<Rightarrow> real \<Rightarrow> real \<Rightarrow> document \<Rightarrow> ((int \<times> int) \<times> int) list" where
  "document_writes_multi resolution global_min_x global_min_y doc =
     concat (map (\<lambda>r. concat (map (\<lambda>g. concat (map (\<lambda>sl. lane_writes_multi resolution global_min_x global_min_y g (snd sl))
                                                  (road_lanes r)))
                               (road_geometry r)))
               doc)"

text \<open>
  The whole conversion.  With no input document the bounds stay infinite and the
  conversion of the grid size to an integer raises; this, a zero resolution and a negative
  dimension end the run without a result.
\<close>

definition batch_convert_xodr_to_driveable_area_multi ::
  "document list \<Rightarrow> real \<Rightarrow> (int list list \<times> real list list) option" where
  "batch_convert_xodr_to_driveable_area_multi docs resolution =
     (case global_bounds docs of
        None \<Rightarrow> None
      | Some (global_min_x, global_max_x, global_min_y, global_max_y) \<Rightarrow>
          (case global_grid_shape (global_min_x, global_max_x, global_min_y, global_max_y) resolution of
             (grid_rows, grid_cols) \<Rightarrow>
               if resolution = 0 \<or> grid_rows < 0 \<or> grid_cols < 0 then None
               else Some (grid_writes grid_rows grid_cols (np_full grid_rows grid_cols 0)
                            (concat (map (document_writes_multi resolution global_min_x global_min_y) docs)),
                          [[1, 0, - global_min_x], [0, 1, - global_min_y], [0, 0, 1]])))"

section \<open>The ground-height grid of one document (xodr2npy\_hight.py)\<close>

text \<open>
  These bounds have no lane inflation and no fallback: \<open>None\<close> is the tuple
  \<open>(inf, -inf, inf, -inf)\<close> returned for a document without a primitive.
\<close>

definition calculate_map_bounds_hight :: "document \<Rightarrow> bounds option" where
  "calculate_map_bounds_hight doc =
     foldl (\<lambda>acc r. foldl fold_geometry acc (road_geometry r)) None doc"

text \<open>The writes of one primitive (lines 94 to 105); none without an elevation element.\<close>

definition height_writes :: "real \<Rightarrow> real \<Rightarrow> real \<Rightarrow> geometry \<Rightarrow> ((int \<times> int) \<times> real) list" where
  "height_writes resolution min_x min_y g =
     (case geo_elevation g of
        None \<Rightarrow> []
      | Some height \<Rightarrow>
          map (\<lambda>i. ((py_int ((centre_y resolution (geo_hdg g) (geo_y g) i - min_y) / resolution),
                      py_int ((centre_x resolution (geo_hdg g) (geo_x g) i - min_x) / resolution)),
                     height))
            (py_range (py_int (geo_length g / resolution))))"

text \<open>
  With infinite bounds \<open>int(width / resolution)\<close> raises, and the function returns
  \<open>None\<close>, as for a zero resolution or a negative dimension.
\<close>

definition xodr_to_ground_height :: "document \<Rightarrow> real \<Rightarrow> real list list option" where
  "xodr_to_ground_height doc resolution =
     (case calculate_map_bounds_hight doc of
        None \<Rightarrow> None
      | Some (min_x, max_x, min_y, max_y) \<Rightarrow>
          (case grid_shape (min_x, max_x, min_y, max_y) resolution of
             (grid_height, grid_width) \<Rightarrow>
               if resolution = 0 \<or> grid_height < 0 \<or> grid_width < 0 then None
               else Some (grid_writes grid_height grid_width (np_full grid_height grid_width 0)
                            (concat (map (height_writes resolution min_x min_y)
                                       (concat (map road_geometry doc)))))))"

section \<open>The merged ground-height grid (xodr2npy\_hight\_multi.py)\<close>

definition global_bounds_hight :: "document list \<Rightarrow> bounds option" where
  "global_bounds_hight docs =
     foldl (\<lambda>acc doc. case calculate_map_bounds_hight doc of None \<Rightarrow> acc | Some b \<Rightarrow> merge_bounds acc b)
       None docs"

text \<open>
  The merged grid is an array of \<open>np.float32\<close>: a cell holds a single-precision
  number, an infinity or NaN.  Storing a number rounds it to the nearest number with a
  significand of 24 bits, a tie going to the even significand; the exponent of the last
  bit is at least -149, and a result of magnitude \<open>2 ^ 128\<close> or more is an infinity.
\<close>

datatype float32 = Nan32 | PosInf32 | NegInf32 | Num32 real

definition np_float32 :: "real \<Rightarrow> float32" where
  "np_float32 v =
     (if v = 0 then Num32 0
      else (let e = max \<lfloor>log 2 \<bar>v\<bar>\<rfloor> (- 126);
                ulp = 2 powr of_int (e - 23);
                r = of_int (round_half_even (v / ulp)) * ulp
            in if 2 ^ 128 \<le> r then PosInf32 else if r \<le> - (2 ^ 128) then NegInf32 else Num32 r))"

text \<open>
  The writes of one primitive (lines 166 to 193).  The grid is filled with NaN first
  (line 156), and the assignment of line 193 stores the elevation as a float32.
\<close>

definition height_writes_multi ::
  "real \<Rightarrow> real \<Rightarrow> real \<Rightarrow> geometry \<Rightarrow> ((int \<times> int) \<times> float32) list" where
  "height_writes_multi resolution global_min_x global_min_y g =
     (case geo_elevation g of
        None \<Rightarrow> []
      | Some height_value \<Rightarrow>
          (let steps = py_int (geo_length g / resolution)
           in map (\<lambda>step. ((py_int ((centre_y resolution (geo_hdg g) (geo_y g) step - global_min_y) / resolution),
                             py_int ((centre_x resolution (geo_hdg g) (geo_x g) step - global_min_x) / resolution)),
                            np_float32 height_value))
                (py_range (steps + 1))))"

text \<open>
  \<open>np.nan_to_num(grid, nan=0.0)\<close> on a float32 array: NaN becomes 0 and an infinity
  the largest float32 of its sign.
\<close>

definition float32_to_num :: "float32 \<Rightarrow> real" where
  "float32_to_num c =
     (case c of Nan32 \<Rightarrow> 0 | PosInf32 \<Rightarrow> (2 ^ 24 - 1) * 2 ^ 104
      | NegInf32 \<Rightarrow> - ((2 ^ 24 - 1) * 2 ^ 104) | Num32 h \<Rightarrow> h)"

definition nan_to_num :: "float32 list list \<Rightarrow> real list list" where
  "nan_to_num grid = map (map float32_to_num) grid"

definition batch_convert_xodr_to_ground_height_multi ::
  "document list \<Rightarrow> real \<Rightarrow> real list list option" where
  "batch_convert_xodr_to_ground_height_multi docs resolution =
     (case global_bounds_hight docs of
        None \<Rightarrow> None
      | Some (global_min_x, global_max_x, global_min_y, global_max_y) \<Rightarrow>
          (case global_grid_shape (global_min_x, global_max_x, global_min_y, global_max_y) resolution of
             (grid_rows, grid_cols) \<Rightarrow>
               if resolution = 0 \<or> grid_rows < 0 \<or> grid_cols < 0 then None
               else Some (nan_to_num
                            (grid_writes grid_rows grid_cols (np_full grid_rows grid_cols Nan32)
                               (concat (map (height_writes_multi resolution global_min_x global_min_y)
                                          (concat (map road_geometry (concat docs)))))))))"

section \<open>The vector map of one document (xodr2xml\&pyn\_lanid.py)\<close>

record node =
  node_id :: nat
  node_x :: real
  node_y :: real

record way =
  way_lane_id :: int
  way_lane_type :: string
  way_width :: string
  way_geometry :: "node list"
  way_predecessor :: "string list"
  way_successor :: "string list"
  way_l_neighbor_id :: string
  way_r_neighbor_id :: string

text \<open>
  \<open>generate_unique_lane_id\<close> draws until the draw is not in the set, adds it and
  returns it.  The tape holds the generator's raw draws in order; the loop never returns
  when every remaining draw is taken, which is the result \<open>None\<close> on a tape that runs
  out.  A result carries the identifier, the updated set and the unread tape.
\<close>

fun generate_unique_lane_id :: "int set \<Rightarrow> nat list \<Rightarrow> (int \<times> int set \<times> nat list) option" where
  "generate_unique_lane_id existing_ids [] = None"
| "generate_unique_lane_id existing_ids (raw # tape) =
     (let lane_id = randint 1000000 9999999 raw
      in if lane_id \<notin> existing_ids then Some (lane_id, insert lane_id existing_ids, tape)
         else generate_unique_lane_id existing_ids tape)"

text \<open>A loop whose body may not return: the first \<open>None\<close> ends it.\<close>

fun fold_option :: "('s \<Rightarrow> 'a \<Rightarrow> 's option) \<Rightarrow> 's \<Rightarrow> 'a list \<Rightarrow> 's option" where
  "fold_option f s [] = Some s"
| "fold_option f s (x # xs) = (case f s x of None \<Rightarrow> None | Some s' \<Rightarrow> fold_option f s' xs)"

record vm_state =
  vm_nodes :: "node list"
  vm_ways :: "way list"
  vm_node_id :: nat
  vm_mapping :: "(nat \<times> int) list"  \<comment> \<open>the key is \<open>str(table_idx)\<close>\<close>
  vm_table_idx :: nat
  vm_existing :: "int set"
  vm_tape :: "nat list"

text \<open>The nodes of a road (lines 119 to 126), numbered from the running \<open>node_id\<close>.\<close>

definition road_nodes :: "nat \<Rightarrow> road \<Rightarrow> node list" where
  "road_nodes first_id r =
     map (\<lambda>(i, g). \<lparr>node_id = i, node_x = geo_x g, node_y = geo_y g\<rparr>)
       (enumerate first_id (road_geometry r))"

text \<open>
  \<open>[predecessor_id] if predecessor_id else []\<close>: a missing and an empty identifier
  both give the empty list.
\<close>

definition link_ids :: "string option \<Rightarrow> string list" where
  "link_ids v = (case v of None \<Rightarrow> [] | Some s \<Rightarrow> if s = [] then [] else [s])"

definition attr_or :: "string option \<Rightarrow> string \<Rightarrow> string" where
  "attr_or v d = (case v of None \<Rightarrow> d | Some s \<Rightarrow> s)"

text \<open>One lane of a road (lines 131 to 161).\<close>

definition vm_lane :: "road \<Rightarrow> node list \<Rightarrow> vm_state \<Rightarrow> lane \<Rightarrow> vm_state option" where
  "vm_lane r road_geometry_nodes st l =
     (case generate_unique_lane_id (vm_existing st) (vm_tape st) of
        None \<Rightarrow> None
      | Some (unique_lane_id, existing, tape) \<Rightarrow>
          Some (st\<lparr>vm_ways := vm_ways st @
                      [\<lparr>way_lane_id = unique_lane_id,
                        way_lane_type = attr_or (lane_type l) ''driving'',
                        way_width = attr_or (lane_width_attr l) ''3.5'',
                        way_geometry = road_geometry_nodes,
                        way_predecessor = link_ids (road_predecessor r),
                        way_successor = link_ids (road_successor r),
                        way_l_neighbor_id = attr_or (lane_l_neighbor_id l) ''None'',
                        way_r_neighbor_id = attr_or (lane_r_neighbor_id l) ''None''\<rparr>],
                    vm_mapping := vm_mapping st @ [(vm_table_idx st, unique_lane_id)],
                    vm_table_idx := vm_table_idx st + 1,
                    vm_existing := existing,
                    vm_tape := tape\<rparr>))"

definition vm_road :: "vm_state \<Rightarrow> road \<Rightarrow> vm_state option" where
  "vm_road st r =
     (let road_geometry_nodes = road_nodes (vm_node_id st) r
      in fold_option (vm_lane r road_geometry_nodes)
           (st\<lparr>vm_nodes := vm_nodes st @ road_geometry_nodes,
               vm_node_id := vm_node_id st + length (road_geometry r)\<rparr>)
           (map snd (road_lanes r)))"

text \<open>
  The function returns \<open>(nodes, ways, mapping)\<close>; the model also returns the set of
  identifiers it has mutated and the unread tape.
\<close>

definition parse_xodr_to_vector_map ::
  "document \<Rightarrow> int set \<Rightarrow> nat list \<Rightarrow>
     (node list \<times> way list \<times> (nat \<times> int) list \<times> int set \<times> nat list) option" where
  "parse_xodr_to_vector_map doc existing_lane_ids tape =
     map_option (\<lambda>st. (vm_nodes st, vm_ways st, vm_mapping st, vm_existing st, vm_tape st))
       (fold_option vm_road
          \<lparr>vm_nodes = [], vm_ways = [], vm_node_id = 0, vm_mapping = [], vm_table_idx = 0,
           vm_existing = existing_lane_ids, vm_tape = tape\<rparr>
          doc)"

text \<open>
  The batch driver (lines 224 to 240) converts the documents one by one, each with a fresh
  set of identifiers, and writes one vector map and one mapping per document.
\<close>

definition convert_document ::
  "(node list \<times> way list \<times> (nat \<times> int) list) list \<times> nat list \<Rightarrow> document \<Rightarrow>
     ((node list \<times> way list \<times> (nat \<times> int) list) list \<times> nat list) option" where
  "convert_document acc doc =
     (case parse_xodr_to_vector_map doc {} (snd acc) of
        None \<Rightarrow> None
      | Some (nodes, ways, mapping, existing, tape) \<Rightarrow> Some (fst acc @ [(nodes, ways, mapping)], tape))"

definition batch_convert_xodr_to_vector_map_and_json ::
  "document list \<Rightarrow> nat list \<Rightarrow> (node list \<times> way list \<times> (nat \<times> int) list) list option" where
  "batch_convert_xodr_to_vector_map_and_json docs tape =
     map_option fst (fold_option convert_document ([], tape) docs)"

section \<open>The merged, deduplicated vector map (xodr2xml\&pyn\_lanid\_multi.py)\<close>

text \<open>
  The key of a node is the string \<open>f"{x}_{y}"\<close> of its rounded coordinates, which
  determines them; the model keys a node by the pair.  The key of a lane is Python's
  \<open>hash\<close> of the tuple (coordinates of the road's nodes, type, width); the hash function
  is a parameter \<open>hsh\<close> of the model.  Dictionaries keep insertion order and are
  association lists that only grow at the end.
\<close>

type_synonym lane_key = "(real \<times> real) list \<times> string \<times> string"

record global_state =
  global_nodes :: "((real \<times> real) \<times> node) list"
  global_ways :: "(int \<times> way) list"
  global_mapping :: "(nat \<times> int) list"
  existing_lane_ids :: "int set"
  table_idx_counter :: nat
  random_tape :: "nat list"

text \<open>One primitive (lines 251 to 263): the dictionary and the road's node list so far.\<close>

definition add_node ::
  "((real \<times> real) \<times> node) list \<times> node list \<Rightarrow> geometry \<Rightarrow> ((real \<times> real) \<times> node) list \<times> node list" where
  "add_node acc g =
     (let x = py_round4 (geo_x g); y = py_round4 (geo_y g); node_key = (x, y);
          nodes = (if map_of (fst acc) node_key = None
                   then fst acc @ [(node_key, \<lparr>node_id = length (fst acc), node_x = x, node_y = y\<rparr>)]
                   else fst acc)
      in (nodes, snd acc @ [the (map_of nodes node_key)]))"

definition node_coordinates :: "node list \<Rightarrow> (real \<times> real) list" where
  "node_coordinates ns = map (\<lambda>n. (node_x n, node_y n)) ns"

text \<open>One lane (lines 273 to 313); a lane whose hash is already a key is skipped.\<close>

definition dedup_lane :: "(lane_key \<Rightarrow> int) \<Rightarrow> node list \<Rightarrow> global_state \<Rightarrow> lane \<Rightarrow> global_state option" where
  "dedup_lane hsh road_node_list st l =
     (let lane_hash = hsh (node_coordinates road_node_list,
                           attr_or (lane_type l) ''driving'', attr_or (lane_width_attr l) ''3.5'')
      in if map_of (global_ways st) lane_hash = None
         then (case generate_unique_lane_id (existing_lane_ids st) (random_tape st) of
                 None \<Rightarrow> None
               | Some (new_lane_id, existing, tape) \<Rightarrow>
                   Some (st\<lparr>global_ways := global_ways st @
                               [(lane_hash,
                                 \<lparr>way_lane_id = new_lane_id,
                                  way_lane_type = attr_or (lane_type l) ''driving'',
                                  way_width = attr_or (lane_width_attr l) ''3.5'',
                                  way_geometry = road_node_list,
                                  way_predecessor = [],
                                  way_successor = [],
                                  way_l_neighbor_id =
                                    (case lane_neighbors l of None \<Rightarrow> ''None''
                                     | Some nb \<Rightarrow> attr_or (fst nb) ''None''),
                                  way_r_neighbor_id =
                                    (case lane_neighbors l of None \<Rightarrow> ''None''
                                     | Some nb \<Rightarrow> attr_or (snd nb) ''None'')\<rparr>)],
                             global_mapping := global_mapping st @ [(table_idx_counter st, new_lane_id)],
                             table_idx_counter := table_idx_counter st + 1,
                             existing_lane_ids := existing,
                             random_tape := tape\<rparr>))
         else Some st)"

text \<open>One road (lines 247 to 313); a road without a primitive is skipped.\<close>

definition dedup_road :: "(lane_key \<Rightarrow> int) \<Rightarrow> global_state \<Rightarrow> road \<Rightarrow> global_state option" where
  "dedup_road hsh st r =
     (case foldl add_node (global_nodes st, []) (road_geometry r) of
        (nodes, road_node_list) \<Rightarrow>
          if road_node_list = [] then Some (st\<lparr>global_nodes := nodes\<rparr>)
          else fold_option (dedup_lane hsh road_node_list) (st\<lparr>global_nodes := nodes\<rparr>)
                 (map snd (road_lanes r)))"

definition dedup_documents ::
  "(lane_key \<Rightarrow> int) \<Rightarrow> global_state \<Rightarrow> document list \<Rightarrow> global_state option" where
  "dedup_documents hsh st docs = fold_option (dedup_road hsh) st (concat docs)"

definition initial_state :: "nat list \<Rightarrow> global_state" where
  "initial_state tape =
     \<lparr>global_nodes = [], global_ways = [], global_mapping = [], existing_lane_ids = {},
      table_idx_counter = 0, random_tape = tape\<rparr>"

text \<open>
  The second phase (lines 319 to 338) writes the merged map and the mapping when there
  is at least one node and one way, and nothing otherwise.
\<close>

definition save_merged :: "global_state \<Rightarrow> (node list \<times> way list \<times> (nat \<times> int) list) option" where
  "save_merged st =
     (if global_nodes st \<noteq> [] \<and> global_ways st \<noteq> []
      then Some (map snd (global_nodes st), map snd (global_ways st), global_mapping st)
      else None)"

text \<open>
  The whole run: \<open>None\<close> when the identifier loop does not return, else what the second
  phase writes.
\<close>

definition batch_convert_xodr_to_vector_map_and_json_multi ::
  "(lane_key \<Rightarrow> int) \<Rightarrow> document list \<Rightarrow> nat list \<Rightarrow>
     (node list \<times> way list \<times> (nat \<times> int) list) option option" where
  "batch_convert_xodr_to_vector_map_and_json_multi hsh docs tape =
     map_option save_merged (dedup_documents hsh (initial_state tape) docs)"

section \<open>Concrete documents of the scenarios\<close>

text \<open>
  One road whose only primitive starts at the origin with heading 0 and length 10, with
  one driving lane of width 3.5.
\<close>

definition straight_geometry :: geometry where
  "straight_geometry = \<lparr>geo_x = 0, geo_y = 0, geo_hdg = 0, geo_length = 10, geo_elevation = None\<rparr>"

definition driving_lane :: lane where
  "driving_lane = \<lparr>lane_type = Some ''driving'', lane_width_attr = None, lane_width_a = Some 3.5,
     lane_l_neighbor_id = None, lane_r_neighbor_id = None, lane_neighbors = None\<rparr>"

definition straight_road :: road where
  "straight_road = \<lparr>road_geometry = [straight_geometry],
     road_lane_sections = [\<lparr>ls_lane_offset = None, ls_lanes = [driving_lane]\<rparr>],
     road_predecessor = None, road_successor = None\<rparr>"

text \<open>
  Two primitives with an elevation that start at the origin, one heading east and one
  heading north, and a road that has primitives only.
\<close>

definition east_primitive :: geometry where
  "east_primitive = \<lparr>geo_x = 0, geo_y = 0, geo_hdg = 0, geo_length = 2, geo_elevation = Some 1\<rparr>"

definition north_primitive :: geometry where
  "north_primitive = \<lparr>geo_x = 0, geo_y = 0, geo_hdg = pi / 2, geo_length = 2, geo_elevation = Some 2\<rparr>"

definition bare_road :: "geometry list \<Rightarrow> road" where
  "bare_road gs = \<lparr>road_geometry = gs, road_lane_sections = [], road_predecessor = None, road_successor = None\<rparr>"

text \<open>The node and the way that the converters emit for the straight road.\<close>

definition origin_node :: "nat \<Rightarrow> node" where
  "origin_node i = \<lparr>node_id = i, node_x = 0, node_y = 0\<rparr>"

definition plain_way :: "int \<Rightarrow> node list \<Rightarrow> way" where
  "plain_way i ns = \<lparr>way_lane_id = i, way_lane_type = ''driving'', way_width = ''3.5'',
     way_geometry = ns, way_predecessor = [], way_successor = [],
     way_l_neighbor_id = ''None'', way_r_neighbor_id = ''None''\<rparr>"

text \<open>
  The straight road with a road-level link, and a road of two primitives whose only lane
  is a driving lane of width 0.
\<close>

definition linked_road :: road where
  "linked_road = straight_road\<lparr>road_predecessor := Some ''5'', road_successor := Some ''7''\<rparr>"

definition zero_width_lane_road :: road where
  "zero_width_lane_road = \<lparr>road_geometry = [east_primitive, east_primitive\<lparr>geo_y := 2\<rparr>],
     road_lane_sections = [\<lparr>ls_lane_offset = None, ls_lanes = [driving_lane\<lparr>lane_width_a := Some 0\<rparr>]\<rparr>],
     road_predecessor = None, road_successor = None\<rparr>"

text \<open>
  A primitive of length 1 with elevation 1 and one of length 0, sampled once, whose
  elevation 16777217 is not a float32.
\<close>

definition unit_primitive :: geometry where
  "unit_primitive = \<lparr>geo_x = 0, geo_y = 0, geo_hdg = 0, geo_length = 1, geo_elevation = Some 1\<rparr>"

definition point_primitive :: geometry where
  "point_primitive = \<lparr>geo_x = 0, geo_y = 0, geo_hdg = 0, geo_length = 0, geo_elevation = Some 16777217\<rparr>"

text \<open>
  Python's \<open>hash\<close> does not separate all keys.  In CPython the hash of a float with
  an integral value is that of the integer, the integer -1 hashes to -2 like the integer
  -2, and the hash of a tuple is computed from the hashes of its items, so two lane keys
  that differ only in a coordinate -1 against -2 have the same hash.  A hash function
  with this collision, and roads to show it: a road whose primitive starts at
  \<open>(x, 0)\<close>, and a road with a lane and no primitive.
\<close>

definition hash_integral :: "real \<Rightarrow> int" where
  "hash_integral v = (if \<lfloor>v\<rfloor> = - 1 then - 2 else \<lfloor>v\<rfloor>)"

definition colliding_hash :: "lane_key \<Rightarrow> int" where
  "colliding_hash k = sum_list (map (\<lambda>p. hash_integral (fst p) + hash_integral (snd p)) (fst k))"

definition west_road :: "real \<Rightarrow> road" where
  "west_road x = \<lparr>road_geometry = [\<lparr>geo_x = x, geo_y = 0, geo_hdg = 0, geo_length = 10, geo_elevation = None\<rparr>],
     road_lane_sections = [\<lparr>ls_lane_offset = None, ls_lanes = [driving_lane]\<rparr>],
     road_predecessor = None, road_successor = None\<rparr>"

definition road_without_primitive :: road where
  "road_without_primitive = \<lparr>road_geometry = [],
     road_lane_sections = [\<lparr>ls_lane_offset = None, ls_lanes = [driving_lane]\<rparr>],
     road_predecessor = None, road_successor = None\<rparr>"

section \<open>Predicates used in the proofs\<close>

text \<open>A rectangle encloses a point; an accumulator only grows.\<close>

definition encloses :: "bounds \<Rightarrow> real \<times> real \<Rightarrow> bool" where
  "encloses b p = (case b of (min_x, max_x, min_y, max_y) \<Rightarrow>
     min_x \<le> fst p \<and> fst p \<le> max_x \<and> min_y \<le> snd p \<and> snd p \<le> max_y)"

definition grows :: "bounds option \<Rightarrow> bounds option \<Rightarrow> bool" where
  "grows acc acc' = (\<forall>b. acc = Some b \<longrightarrow> (\<exists>b'. acc' = Some b' \<and> (\<forall>p. encloses b p \<longrightarrow> encloses b' p)))"

text \<open>A grid has the shape it was allocated with.\<close>

definition shaped :: "int \<Rightarrow> int \<Rightarrow> 'a list list \<Rightarrow> bool" where
  "shaped rows cols grid = (map length grid = replicate (nat rows) (nat cols))"

text \<open>
  Identifiers of seven decimal digits, and the bookkeeping of the identifier set: the
  identifiers issued so far are distinct, were not in the initial set, and the set is the
  initial one plus them.
\<close>

definition seven_digits :: "int \<Rightarrow> bool" where
  "seven_digits i = (1000000 \<le> i \<and> i \<le> 9999999)"

definition issued :: "int set \<Rightarrow> int list \<Rightarrow> int set \<Rightarrow> bool" where
  "issued initial ids existing =
     (distinct ids \<and> set ids \<inter> initial = {} \<and> existing = initial \<union> set ids \<and>
      (\<forall>i\<in>set ids. seven_digits i))"

definition vm_issued :: "int set \<Rightarrow> vm_state \<Rightarrow> bool" where
  "vm_issued initial st =
     (issued initial (map way_lane_id (vm_ways st)) (vm_existing st) \<and>
      map snd (vm_mapping st) = map way_lane_id (vm_ways st))"

definition global_issued :: "global_state \<Rightarrow> bool" where
  "global_issued st =
     (issued {} (map (way_lane_id \<circ> snd) (global_ways st)) (existing_lane_ids st) \<and>
      map snd (global_mapping st) = map (way_lane_id \<circ> snd) (global_ways st))"

text \<open>
  The identity key of a lane record and of the lanes of the input: the rounded coordinates
  of the road's primitives, the lane's type and its width attribute.  Lanes of a road
  without a primitive are skipped by the merging converter and have no key.
\<close>

definition way_key :: "way \<Rightarrow> lane_key" where
  "way_key w = (node_coordinates (way_geometry w), way_lane_type w, way_width w)"

definition rounded_coordinates :: "road \<Rightarrow> (real \<times> real) list" where
  "rounded_coordinates r = map (\<lambda>g. (py_round4 (geo_x g), py_round4 (geo_y g))) (road_geometry r)"

definition road_lane_keys :: "road \<Rightarrow> lane_key list" where
  "road_lane_keys r =
     (if road_geometry r = [] then []
      else map (\<lambda>l. (rounded_coordinates r, attr_or (lane_type l) ''driving'',
                      attr_or (lane_width_attr l) ''3.5''))
             (map snd (road_lanes r)))"

definition lane_keys :: "document list \<Rightarrow> lane_key list" where
  "lane_keys docs = concat (map road_lane_keys (concat docs))"

text \<open>
  The invariant of the merging converter's tables: a node carries the coordinates of its
  key; the hashes that key the ways are distinct; a way is stored under the hash of its
  own key, which is a lane key of the input; there is a node as soon as there is a way.
  The table of ways only grows at its end.
\<close>

definition nodes_keyed :: "((real \<times> real) \<times> node) list \<Rightarrow> bool" where
  "nodes_keyed gn = (\<forall>e\<in>set gn. (node_x (snd e), node_y (snd e)) = fst e)"

definition dedup_inv :: "(lane_key \<Rightarrow> int) \<Rightarrow> lane_key set \<Rightarrow> global_state \<Rightarrow> bool" where
  "dedup_inv hsh S st =
     (nodes_keyed (global_nodes st) \<and> distinct (map fst (global_ways st)) \<and>
      (\<forall>e\<in>set (global_ways st). fst e = hsh (way_key (snd e)) \<and> way_key (snd e) \<in> S) \<and>
      (global_ways st \<noteq> [] \<longrightarrow> global_nodes st \<noteq> []))"

definition extends :: "global_state \<Rightarrow> global_state \<Rightarrow> bool" where
  "extends st st' = (\<exists>ext. global_ways st' = global_ways st @ ext)"

definition has_key :: "global_state \<Rightarrow> int \<Rightarrow> bool" where
  "has_key st h = (h \<in> fst ` set (global_ways st))"

text \<open>
  A tape whose draws are pairwise distinct and not yet issued: every call of the
  identifier generator returns at its first draw.
\<close>

definition draws :: "nat list \<Rightarrow> int list" where
  "draws tape = map (randint 1000000 9999999) tape"

definition fresh_tape :: "int set \<Rightarrow> nat list \<Rightarrow> bool" where
  "fresh_tape existing tape = (distinct (draws tape) \<and> set (draws tape) \<inter> existing = {})"

definition lane_count :: "document list \<Rightarrow> nat" where
  "lane_count docs = sum_list (map (\<lambda>r. length (road_lanes r)) (concat docs))"

section \<open>Bounds enclose every primitive\<close>

lemma grows_refl: "grows acc acc"
  by (simp add: grows_def)

lemma grows_trans: "grows a b \<Longrightarrow> grows b c \<Longrightarrow> grows a c"
  unfolding grows_def by fastforce

lemma fold_geometry_grows: "grows acc (fold_geometry acc g)"
  by (auto simp: grows_def fold_geometry_def encloses_def)

lemma total_width_nonneg: "0 \<le> total_width ls l"
  by (simp add: total_width_def)

lemma inflate_lane_grows: "grows acc (inflate_lane acc sl)"
  using total_width_nonneg [of "fst sl" "snd sl"]
  by (auto simp: grows_def inflate_lane_def encloses_def Let_def)

lemma foldl_grows:
  assumes "\<And>a x. grows a (f a x)"
  shows "grows acc (foldl f acc xs)"
proof (induction xs arbitrary: acc)
  case Nil
  show ?case by (simp add: grows_refl)
next
  case (Cons x xs)
  have "grows acc (f acc x)" by (rule assms)
  moreover have "grows (f acc x) (foldl f (f acc x) xs)" by (rule Cons.IH)
  ultimately show ?case using grows_trans by simp
qed

lemma fold_geometry_encloses:
  "\<exists>b. fold_geometry acc g = Some b \<and> encloses b (geo_x g, geo_y g) \<and> encloses b (x_end g, y_end g)"
  by (cases acc) (auto simp: fold_geometry_def encloses_def)

lemma grows_encloses:
  "grows acc acc' \<Longrightarrow> acc = Some b \<Longrightarrow> encloses b p \<Longrightarrow> \<exists>b'. acc' = Some b' \<and> encloses b' p"
  unfolding grows_def by blast

lemma foldl_geometry_encloses:
  assumes "g \<in> set gs"
  shows "\<exists>b. foldl fold_geometry acc gs = Some b \<and> encloses b (geo_x g, geo_y g) \<and> encloses b (x_end g, y_end g)"
  using assms
proof (induction gs arbitrary: acc)
  case Nil
  then show ?case by simp
next
  case (Cons h gs)
  show ?case
  proof (cases "g = h")
    case True
    obtain b where b: "fold_geometry acc h = Some b" "encloses b (geo_x g, geo_y g)"
        "encloses b (x_end g, y_end g)"
      using fold_geometry_encloses [of acc h] True by blast
    have gr: "grows (fold_geometry acc h) (foldl fold_geometry (fold_geometry acc h) gs)"
      by (rule foldl_grows) (rule fold_geometry_grows)
    from gr b show ?thesis
      unfolding grows_def by fastforce
  next
    case False
    with Cons.prems have "g \<in> set gs" by simp
    from Cons.IH [OF this] show ?thesis by simp
  qed
qed

lemma bounds_road_grows: "grows acc (bounds_road acc r)"
  unfolding bounds_road_def
  by (rule grows_trans [OF foldl_grows foldl_grows]) (rule fold_geometry_grows, rule inflate_lane_grows)

lemma bounds_road_encloses:
  assumes "g \<in> set (road_geometry r)"
  shows "\<exists>b. bounds_road acc r = Some b \<and> encloses b (geo_x g, geo_y g) \<and> encloses b (x_end g, y_end g)"
proof -
  obtain b where b: "foldl fold_geometry acc (road_geometry r) = Some b"
      "encloses b (geo_x g, geo_y g)" "encloses b (x_end g, y_end g)"
    using foldl_geometry_encloses [OF assms] by blast
  have "grows (Some b) (foldl inflate_lane (Some b) (road_lanes r))"
    by (rule foldl_grows) (rule inflate_lane_grows)
  with b show ?thesis
    unfolding grows_def bounds_road_def by fastforce
qed

lemma foldl_bounds_road_encloses:
  assumes "r \<in> set doc" "g \<in> set (road_geometry r)"
  shows "\<exists>b. foldl bounds_road acc doc = Some b \<and> encloses b (geo_x g, geo_y g) \<and> encloses b (x_end g, y_end g)"
  using assms(1)
proof (induction doc arbitrary: acc)
  case Nil
  then show ?case by simp
next
  case (Cons q doc)
  show ?case
  proof (cases "r = q")
    case True
    obtain b where b: "bounds_road acc q = Some b" "encloses b (geo_x g, geo_y g)"
        "encloses b (x_end g, y_end g)"
      using bounds_road_encloses [OF assms(2), of acc] True by blast
    have "grows (Some b) (foldl bounds_road (Some b) doc)"
      by (rule foldl_grows) (rule bounds_road_grows)
    with b show ?thesis
      unfolding grows_def by fastforce
  next
    case False
    with Cons.prems have "r \<in> set doc" by simp
    from Cons.IH [OF this] show ?thesis by simp
  qed
qed

text \<open>
  C6: for a road set with at least one geometry primitive, the bounds of
  \<open>calculate_map_bounds\<close> satisfy \<open>min_x \<le> max_x\<close> and \<open>min_y \<le> max_y\<close>,
  the start point and the end point of every primitive lie inside them, and the
  translation matrix sends each such point to non-negative coordinates and
  \<open>(min_x, min_y)\<close> to the origin.
\<close>

theorem map_bounds_enclose_primitives:
  assumes "r \<in> set doc" and "g \<in> set (road_geometry r)"
  shows "case calculate_map_bounds doc of (min_x, max_x, min_y, max_y) \<Rightarrow>
           min_x \<le> max_x \<and> min_y \<le> max_y \<and>
           min_x \<le> geo_x g \<and> geo_x g \<le> max_x \<and> min_y \<le> geo_y g \<and> geo_y g \<le> max_y \<and>
           min_x \<le> x_end g \<and> x_end g \<le> max_x \<and> min_y \<le> y_end g \<and> y_end g \<le> max_y \<and>
           0 \<le> fst (apply_transform (calculate_transform_matrix min_x min_y) (geo_x g, geo_y g)) \<and>
           0 \<le> snd (apply_transform (calculate_transform_matrix min_x min_y) (geo_x g, geo_y g)) \<and>
           0 \<le> fst (apply_transform (calculate_transform_matrix min_x min_y) (x_end g, y_end g)) \<and>
           0 \<le> snd (apply_transform (calculate_transform_matrix min_x min_y) (x_end g, y_end g)) \<and>
           apply_transform (calculate_transform_matrix min_x min_y) (min_x, min_y) = (0, 0)"
proof -
  obtain b where b: "foldl bounds_road None doc = Some b" "encloses b (geo_x g, geo_y g)"
      "encloses b (x_end g, y_end g)"
    using foldl_bounds_road_encloses [OF assms] by blast
  then show ?thesis
    by (cases b) (auto simp: calculate_map_bounds_def encloses_def apply_transform_def
        calculate_transform_matrix_def)
qed

theorem map_bounds_enclose_primitives_witness:
  "straight_road \<in> set [straight_road] \<and> straight_geometry \<in> set (road_geometry straight_road) \<and>
   calculate_map_bounds [straight_road] = (-3.5, 13.5, -3.5, 3.5) \<and>
   apply_transform (calculate_transform_matrix (-3.5) (-3.5)) (x_end straight_geometry, y_end straight_geometry) = (13.5, 3.5)"
proof -
  have "calculate_map_bounds [straight_road] = (-3.5, 13.5, -3.5, 3.5)"
    by (simp add: straight_road_def straight_geometry_def driving_lane_def calculate_map_bounds_def bounds_road_def fold_geometry_def
        inflate_lane_def road_lanes_def total_width_def x_end_def y_end_def Let_def)
  moreover have "straight_geometry \<in> set (road_geometry straight_road)"
    by (simp add: straight_road_def)
  moreover have "apply_transform (calculate_transform_matrix (-3.5) (-3.5)) (x_end straight_geometry, y_end straight_geometry) = (13.5, 3.5)"
    by (simp add: apply_transform_def calculate_transform_matrix_def x_end_def y_end_def straight_geometry_def)
  ultimately show ?thesis
    using map_bounds_enclose_primitives [of straight_road "[straight_road]" straight_geometry]
    by simp
qed

section \<open>Reading a grid after a sequence of writes\<close>

lemma shaped_np_full: "shaped rows cols (np_full rows cols v)"
  by (simp add: shaped_def np_full_def)

lemma shaped_length: "shaped rows cols grid \<Longrightarrow> length grid = nat rows"
  unfolding shaped_def by (metis length_map length_replicate)

lemma shaped_row_length:
  assumes "shaped rows cols grid" "i < nat rows"
  shows "length (grid ! i) = nat cols"
proof -
  have "map length grid ! i = nat cols"
    using assms by (simp add: shaped_def)
  moreover have "i < length grid" using assms shaped_length by metis
  ultimately show ?thesis by simp
qed

lemma grid_write_shaped:
  assumes "shaped rows cols grid"
  shows "shaped rows cols (grid_write rows cols grid w)"
proof -
  have "map length (grid[i := (grid ! i)[j := v]]) = map length grid" for i j and v :: 'a
    by (cases "i < length grid") (simp_all add: map_update list_update_same_conv list_update_beyond)
  with assms show ?thesis
    by (simp add: grid_write_def shaped_def Let_def)
qed

lemma grid_writes_shaped:
  "shaped rows cols grid \<Longrightarrow> shaped rows cols (grid_writes rows cols grid ws)"
  unfolding grid_writes_def
  by (induction ws arbitrary: grid) (simp_all add: grid_write_shaped)

lemma grid_write_lookup:
  assumes "shaped rows cols grid" "0 \<le> r" "r < rows" "0 \<le> c" "c < cols"
  shows "grid_write rows cols grid w ! nat r ! nat c =
           (if fst w = (r, c) then snd w else grid ! nat r ! nat c)"
proof -
  have len: "length grid = nat rows" using assms(1) by (rule shaped_length)
  have rowlen: "length (grid ! i) = nat cols" if "i < nat rows" for i
    using assms(1) that by (rule shaped_row_length)
  obtain y x v where w: "w = ((y, x), v)" by (metis prod.collapse)
  show ?thesis
  proof (cases "0 \<le> x \<and> x < cols \<and> 0 \<le> y \<and> y < rows")
    case False
    with assms w show ?thesis by (auto simp: grid_write_def)
  next
    case True
    then have ny: "nat y < length grid" using len by simp
    have nx: "nat x < length (grid ! nat y)" using True rowlen [of "nat y"] by simp
    show ?thesis
    proof (cases "y = r")
      case yr: True
      with True w ny nx assms show ?thesis
        by (auto simp: grid_write_def nth_list_update)
    next
      case False
      then have "nat y \<noteq> nat r" using True assms(2) by auto
      with True w False show ?thesis
        by (simp add: grid_write_def)
    qed
  qed
qed

lemma grid_writes_lookup:
  assumes "shaped rows cols grid" "0 \<le> r" "r < rows" "0 \<le> c" "c < cols"
  shows "grid_writes rows cols grid ws ! nat r ! nat c =
           (case map_of (rev ws) (r, c) of None \<Rightarrow> grid ! nat r ! nat c | Some v \<Rightarrow> v)"
  using assms(1)
proof (induction ws arbitrary: grid)
  case Nil
  show ?case by (simp add: grid_writes_def)
next
  case (Cons w ws)
  have sh: "shaped rows cols (grid_write rows cols grid w)"
    using Cons.prems by (rule grid_write_shaped)
  have step: "grid_writes rows cols grid (w # ws) = grid_writes rows cols (grid_write rows cols grid w) ws"
    by (simp add: grid_writes_def)
  have look: "grid_write rows cols grid w ! nat r ! nat c =
           (if fst w = (r, c) then snd w else grid ! nat r ! nat c)"
    using Cons.prems assms(2-5) by (rule grid_write_lookup)
  show ?case
    unfolding step Cons.IH [OF sh] look
    by (cases w) (auto simp: map_add_def split: option.splits)
qed

lemma map_of_rev_const:
  assumes "k \<in> fst ` set ws" "\<forall>w\<in>set ws. snd w = v"
  shows "map_of (rev ws) k = Some v"
proof -
  from assms(1) have "k \<in> fst ` set (rev ws)" by simp
  then obtain u where "map_of (rev ws) k = Some u"
    by (metis domD dom_map_of_conv_image_fst)
  moreover from this have "(k, u) \<in> set ws" using map_of_SomeD by fastforce
  ultimately show ?thesis using assms(2) by fastforce
qed

lemma document_writes_all_one: "\<forall>w\<in>set (document_writes resolution ox oy doc). snd w = 1"
  by (auto simp: document_writes_def lane_writes_def lateral_cells_def Let_def)

section \<open>The end-to-end scenarios\<close>

text \<open>
  C1: one road whose only primitive starts at the origin with heading 0 and length 10,
  with one driving lane of width 3.5, at resolution 0.5.  The bounds are
  \<open>(-3.5, 13.5, -3.5, 3.5)\<close>, the occupancy grid of the single-document converter
  (14 rows of 34 cells) has a cell set to 1, and the bounding-box table is the one row
  \<open>[-1.75, -1.75, 11.75, 1.75]\<close>.  The fields the scenario leaves open are arbitrary.
\<close>

theorem single_straight_road_scenario:
  fixes e nb ln rn wa p s
  defines "doc \<equiv> [\<lparr>road_geometry = [\<lparr>geo_x = 0, geo_y = 0, geo_hdg = 0, geo_length = 10, geo_elevation = e\<rparr>],
                    road_lane_sections = [\<lparr>ls_lane_offset = None,
                       ls_lanes = [\<lparr>lane_type = Some ''driving'', lane_width_attr = wa,
                                    lane_width_a = Some 3.5, lane_l_neighbor_id = ln,
                                    lane_r_neighbor_id = rn, lane_neighbors = nb\<rparr>]\<rparr>],
                    road_predecessor = p, road_successor = s\<rparr>]"
  shows "calculate_map_bounds doc = (-3.5, 13.5, -3.5, 3.5) \<and>
         (\<exists>grid T. parse_xodr_to_driveable_area doc 0.5 = Some (grid, T) \<and>
            length grid = 14 \<and> length (grid ! 13) = 34 \<and> grid ! 13 ! 7 = 1) \<and>
         xodr_to_bbox_table doc = [[-1.75, -1.75, 11.75, 1.75]]"
proof -
  have b: "calculate_map_bounds doc = (-3.5, 13.5, -3.5, 3.5)"
    by (simp add: doc_def calculate_map_bounds_def bounds_road_def fold_geometry_def
        inflate_lane_def road_lanes_def total_width_def x_end_def y_end_def Let_def)
  have t: "xodr_to_bbox_table doc = [[-1.75, -1.75, 11.75, 1.75]]"
    by (simp add: doc_def xodr_to_bbox_table_def bbox_row_def x_end_def y_end_def)
  have sh: "grid_shape (-3.5, 13.5, -3.5, 3.5) 0.5 = (14, 34)"
    by (simp add: grid_shape_def py_int_def)
  define ws where "ws = document_writes 0.5 3.5 3.5 doc"
  define grid where "grid = grid_writes 14 34 (np_full 14 34 (0::int)) ws"
  have p: "parse_xodr_to_driveable_area doc 0.5 = Some (grid, calculate_transform_matrix (-3.5) (-3.5))"
    using b sh by (simp add: parse_xodr_to_driveable_area_def grid_def ws_def)
  have shaped: "shaped 14 34 grid"
    unfolding grid_def by (rule grid_writes_shaped) (rule shaped_np_full)
  have l1: "length grid = 14" using shaped_length [OF shaped] by simp
  have l2: "length (grid ! 13) = 34" using shaped_row_length [OF shaped, of 13] by simp
  have i0: "0 \<in> set (py_range (py_int (10 / (1/2))))"
    by (simp add: py_int_def py_range_def)
  have "(1::nat) < nat \<lceil>((7/2 + 1/2) - (- (7/2))) / (1/2 :: real)\<rceil>" by simp
  then have w1: "-3 \<in> set (np_arange (- (7/2)) (7/2 + 1/2) (1/2))"
    unfolding np_arange_def by (auto simp: image_iff intro!: bexI [of _ 1])
  have cell: "((13, 7), 1) \<in> set (lateral_cells (1/2) 0 (7/2) (7/2) (7/2))"
    unfolding lateral_cells_def using w1
    by (auto simp: image_iff py_int_def intro!: bexI [of _ "-3"])
  have "((13, 7), 1) \<in> set ws"
    unfolding ws_def doc_def document_writes_def road_lanes_def lane_writes_def
    using i0 cell by (auto simp: centre_x_def centre_y_def Let_def intro!: bexI [of _ 0])
  then have "(13, 7) \<in> fst ` set ws" by force
  moreover have "\<forall>w\<in>set ws. snd w = 1"
    unfolding ws_def by (rule document_writes_all_one)
  ultimately have m: "map_of (rev ws) (13, 7) = Some 1"
    by (rule map_of_rev_const)
  have "grid ! nat 13 ! nat 7 = 1"
    unfolding grid_def
    by (subst grid_writes_lookup [OF shaped_np_full]) (simp_all add: m)
  then have l3: "grid ! 13 ! 7 = 1" by simp
  from b t p l1 l2 l3 show ?thesis by blast
qed

theorem single_straight_road_scenario_witness:
  "calculate_map_bounds [straight_road] = (-3.5, 13.5, -3.5, 3.5) \<and>
   xodr_to_bbox_table [straight_road] = [[-1.75, -1.75, 11.75, 1.75]]"
  using single_straight_road_scenario [of None None None None None None None]
  by (simp add: straight_road_def straight_geometry_def driving_lane_def)

text \<open>
  C8: a document without roads gives the fallback bounds \<open>(0, 1, 0, 1)\<close>, at
  resolution 0.5 a grid of two rows of two cells that are all 0, and a vector map
  without nodes and without ways.
\<close>

theorem empty_document:
  "calculate_map_bounds [] = (0, 1, 0, 1) \<and>
   parse_xodr_to_driveable_area [] 0.5 = Some ([[0, 0], [0, 0]], [[1, 0, 0], [0, 1, 0], [0, 0, 1]]) \<and>
   parse_xodr_to_vector_map [] existing tape = Some ([], [], [], existing, tape)"
  by (simp add: calculate_map_bounds_def parse_xodr_to_driveable_area_def grid_shape_def py_int_def
      np_full_def grid_writes_def document_writes_def calculate_transform_matrix_def
      parse_xodr_to_vector_map_def numeral_2_eq_2)

theorem empty_document_witness:
  "parse_xodr_to_vector_map [] {} [] = Some ([], [], [], {}, [])"
  using empty_document [of "{}" "[]"] by simp

section \<open>The bounding boxes are not sorted\<close>

text \<open>
  C10: the row of a primitive is its start point minus half the nominal width 3.5 and
  its end point plus half the nominal width, in this order and unsorted; for a primitive
  of heading \<open>pi\<close> that is longer than 3.5 the row has \<open>xMin > xMax\<close>.
\<close>

theorem bbox_row_unsorted:
  assumes "r \<in> set doc" and "g \<in> set (road_geometry r)"
  shows "bbox_row g \<in> set (xodr_to_bbox_table doc) \<and>
         bbox_row g = [geo_x g - 1.75, geo_y g - 1.75, x_end g + 1.75, y_end g + 1.75] \<and>
         (geo_hdg g = pi \<and> 3.5 < geo_length g \<longrightarrow> bbox_row g ! 2 < bbox_row g ! 0)"
  using assms by (auto simp: xodr_to_bbox_table_def bbox_row_def x_end_def)

theorem bbox_row_unsorted_witness:
  "xodr_to_bbox_table [\<lparr>road_geometry = [\<lparr>geo_x = 0, geo_y = 0, geo_hdg = pi, geo_length = 10, geo_elevation = None\<rparr>],
      road_lane_sections = [], road_predecessor = None, road_successor = None\<rparr>] = [[-1.75, -1.75, -8.25, 1.75]]"
  using bbox_row_unsorted [of "\<lparr>road_geometry = [\<lparr>geo_x = 0, geo_y = 0, geo_hdg = pi, geo_length = 10, geo_elevation = None\<rparr>],
      road_lane_sections = [], road_predecessor = None, road_successor = None\<rparr>" 
     "[\<lparr>road_geometry = [\<lparr>geo_x = 0, geo_y = 0, geo_hdg = pi, geo_length = 10, geo_elevation = None\<rparr>],
      road_lane_sections = [], road_predecessor = None, road_successor = None\<rparr>]"
     "\<lparr>geo_x = 0, geo_y = 0, geo_hdg = pi, geo_length = 10, geo_elevation = None\<rparr>"]
  by (simp add: xodr_to_bbox_table_def x_end_def y_end_def)

section \<open>The last write to a height cell wins\<close>

lemma map_of_rev_append_const:
  assumes "k \<in> fst ` set ws2" "\<forall>w\<in>set ws2. snd w = v"
  shows "map_of (rev (ws1 @ ws2)) k = Some v"
proof -
  have "map_of (rev ws2) k = Some v" using assms by (rule map_of_rev_const)
  then show ?thesis by (simp add: map_add_def)
qed

lemma height_writes_value:
  "geo_elevation g = Some h \<Longrightarrow> \<forall>w\<in>set (height_writes resolution min_x min_y g). snd w = h"
  by (auto simp: height_writes_def)

lemma height_writes_multi_value:
  "geo_elevation g = Some h \<Longrightarrow>
     \<forall>w\<in>set (height_writes_multi resolution min_x min_y g). snd w = np_float32 h"
  by (auto simp: height_writes_multi_def Let_def)

lemma bounds_hight_pair:
  "calculate_map_bounds_hight [r\<lparr>road_geometry := [B, A]\<rparr>] =
   calculate_map_bounds_hight [r\<lparr>road_geometry := [A, B]\<rparr>]"
  by (simp add: calculate_map_bounds_hight_def fold_geometry_def min.commute min.left_commute
      max.commute max.left_commute)

lemma global_bounds_hight_single:
  "calculate_map_bounds_hight doc = Some b \<Longrightarrow> global_bounds_hight [doc] = Some b"
  by (cases b) (simp add: global_bounds_hight_def merge_bounds_def)

lemma nan_to_num_lookup:
  assumes "shaped rows cols grid" "0 \<le> r" "r < rows" "0 \<le> c" "c < cols"
  shows "nan_to_num grid ! nat r ! nat c = float32_to_num (grid ! nat r ! nat c)"
proof -
  have "nat r < length grid" using shaped_length [OF assms(1)] assms(2,3) by simp
  moreover have "nat c < length (grid ! nat r)"
    using shaped_row_length [OF assms(1), of "nat r"] assms by simp
  ultimately show ?thesis by (simp add: nan_to_num_def)
qed

lemma single_height_pair:
  assumes bounds: "calculate_map_bounds_hight [r\<lparr>road_geometry := [P, Q]\<rparr>] = Some (min_x, max_x, min_y, max_y)"
    and q: "geo_elevation Q = Some q"
    and res: "resolution \<noteq> 0"
    and cell: "(gy, gx) \<in> fst ` set (height_writes resolution min_x min_y Q)"
    and range: "0 \<le> gy" "gy < fst (grid_shape (min_x, max_x, min_y, max_y) resolution)"
       "0 \<le> gx" "gx < snd (grid_shape (min_x, max_x, min_y, max_y) resolution)"
  shows "\<exists>grid. xodr_to_ground_height [r\<lparr>road_geometry := [P, Q]\<rparr>] resolution = Some grid \<and>
           grid ! nat gy ! nat gx = q"
proof -
  obtain rows cols where shape: "grid_shape (min_x, max_x, min_y, max_y) resolution = (rows, cols)"
    by (cases "grid_shape (min_x, max_x, min_y, max_y) resolution")
  from range shape have rg: "0 \<le> gy" "gy < rows" "0 \<le> gx" "gx < cols" by simp_all
  define ws where "ws = height_writes resolution min_x min_y P @ height_writes resolution min_x min_y Q"
  define grid where "grid = grid_writes rows cols (np_full rows cols (0::real)) ws"
  have run: "xodr_to_ground_height [r\<lparr>road_geometry := [P, Q]\<rparr>] resolution = Some grid"
    using bounds shape res rg by (simp add: xodr_to_ground_height_def grid_def ws_def)
  have "map_of (rev ws) (gy, gx) = Some q"
    unfolding ws_def using cell height_writes_value [OF q] by (rule map_of_rev_append_const)
  then have "grid ! nat gy ! nat gx = q"
    unfolding grid_def
    by (subst grid_writes_lookup [OF shaped_np_full rg]) simp
  with run show ?thesis by blast
qed

lemma multi_height_pair:
  assumes bounds: "calculate_map_bounds_hight [r\<lparr>road_geometry := [P, Q]\<rparr>] = Some (min_x, max_x, min_y, max_y)"
    and q: "geo_elevation Q = Some q"
    and res: "resolution \<noteq> 0"
    and cell: "(row, col) \<in> fst ` set (height_writes_multi resolution min_x min_y Q)"
    and range: "0 \<le> row" "row < fst (global_grid_shape (min_x, max_x, min_y, max_y) resolution)"
       "0 \<le> col" "col < snd (global_grid_shape (min_x, max_x, min_y, max_y) resolution)"
  shows "\<exists>grid. batch_convert_xodr_to_ground_height_multi [[r\<lparr>road_geometry := [P, Q]\<rparr>]] resolution = Some grid \<and>
           grid ! nat row ! nat col = float32_to_num (np_float32 q)"
proof -
  obtain rows cols where shape: "global_grid_shape (min_x, max_x, min_y, max_y) resolution = (rows, cols)"
    by (cases "global_grid_shape (min_x, max_x, min_y, max_y) resolution")
  from range shape have rg: "0 \<le> row" "row < rows" "0 \<le> col" "col < cols" by simp_all
  define ws where "ws = height_writes_multi resolution min_x min_y P @ height_writes_multi resolution min_x min_y Q"
  define grid where "grid = grid_writes rows cols (np_full rows cols Nan32) ws"
  have gb: "global_bounds_hight [[r\<lparr>road_geometry := [P, Q]\<rparr>]] = Some (min_x, max_x, min_y, max_y)"
    using bounds by (rule global_bounds_hight_single)
  have run: "batch_convert_xodr_to_ground_height_multi [[r\<lparr>road_geometry := [P, Q]\<rparr>]] resolution = Some (nan_to_num grid)"
    using gb shape res rg by (simp add: batch_convert_xodr_to_ground_height_multi_def grid_def ws_def)
  have sh: "shaped rows cols grid"
    unfolding grid_def by (rule grid_writes_shaped) (rule shaped_np_full)
  have "map_of (rev ws) (row, col) = Some (np_float32 q)"
    unfolding ws_def using cell height_writes_multi_value [OF q] by (rule map_of_rev_append_const)
  then have "grid ! nat row ! nat col = np_float32 q"
    unfolding grid_def
    by (subst grid_writes_lookup [OF shaped_np_full rg]) simp
  then have "nan_to_num grid ! nat row ! nat col = float32_to_num (np_float32 q)"
    by (simp add: nan_to_num_lookup [OF sh rg])
  with run show ?thesis by blast
qed

text \<open>
  C7, as amended: writes to the height grid are last-write-wins and so depend on the
  order.  For two primitives A and B with elevations \<open>a\<close> and \<open>b\<close> whose
  samples land on the same cell of the grid, the road with the primitives \<open>[A, B]\<close>
  leaves B's elevation in that cell and the road with \<open>[B, A]\<close> leaves A's: in the
  single-document converter the elevation itself, in the merging converter, whose grid is
  of single precision, the elevation rounded to a float32.  Each converter is stated for
  the cells that its own samples share; each result is a function of the traversal order.
\<close>

theorem height_last_write_wins:
  assumes bounds: "calculate_map_bounds_hight [r\<lparr>road_geometry := [A, B]\<rparr>] = Some (min_x, max_x, min_y, max_y)"
    and elevations: "geo_elevation A = Some a" "geo_elevation B = Some b"
    and res: "resolution \<noteq> 0"
  shows "((gy, gx) \<in> fst ` set (height_writes resolution min_x min_y A) \<and>
          (gy, gx) \<in> fst ` set (height_writes resolution min_x min_y B) \<and>
          0 \<le> gy \<and> gy < fst (grid_shape (min_x, max_x, min_y, max_y) resolution) \<and>
          0 \<le> gx \<and> gx < snd (grid_shape (min_x, max_x, min_y, max_y) resolution) \<longrightarrow>
            (\<exists>grid. xodr_to_ground_height [r\<lparr>road_geometry := [A, B]\<rparr>] resolution = Some grid \<and>
               grid ! nat gy ! nat gx = b) \<and>
            (\<exists>grid. xodr_to_ground_height [r\<lparr>road_geometry := [B, A]\<rparr>] resolution = Some grid \<and>
               grid ! nat gy ! nat gx = a)) \<and>
         ((row, col) \<in> fst ` set (height_writes_multi resolution min_x min_y A) \<and>
          (row, col) \<in> fst ` set (height_writes_multi resolution min_x min_y B) \<and>
          0 \<le> row \<and> row < fst (global_grid_shape (min_x, max_x, min_y, max_y) resolution) \<and>
          0 \<le> col \<and> col < snd (global_grid_shape (min_x, max_x, min_y, max_y) resolution) \<longrightarrow>
            (\<exists>grid. batch_convert_xodr_to_ground_height_multi [[r\<lparr>road_geometry := [A, B]\<rparr>]] resolution = Some grid \<and>
               grid ! nat row ! nat col = float32_to_num (np_float32 b)) \<and>
            (\<exists>grid. batch_convert_xodr_to_ground_height_multi [[r\<lparr>road_geometry := [B, A]\<rparr>]] resolution = Some grid \<and>
               grid ! nat row ! nat col = float32_to_num (np_float32 a)))"
proof -
  have bounds': "calculate_map_bounds_hight [r\<lparr>road_geometry := [B, A]\<rparr>] = Some (min_x, max_x, min_y, max_y)"
    using bounds by (simp only: bounds_hight_pair)
  note s1 = single_height_pair [OF bounds elevations(2) res]
  note s2 = single_height_pair [OF bounds' elevations(1) res]
  note m1 = multi_height_pair [OF bounds elevations(2) res]
  note m2 = multi_height_pair [OF bounds' elevations(1) res]
  from s1 s2 m1 m2 show ?thesis by blast
qed

lemma np_float32_normal:
  assumes "0 < v" and "2 powr of_int e \<le> v" and "v < 2 powr of_int (e + 1)" and "- 126 \<le> e"
    and "round_half_even (v / 2 powr of_int (e - 23)) = m"
    and "\<bar>real_of_int m * 2 powr of_int (e - 23)\<bar> < 2 ^ 128"
  shows "np_float32 v = Num32 (of_int m * 2 powr of_int (e - 23))"
proof -
  have "\<lfloor>log 2 \<bar>v\<bar>\<rfloor> = e"
    using assms(1-3) by (simp add: floor_log_eq_powr_iff)
  moreover have "\<not> 2 ^ 128 \<le> real_of_int m * 2 powr of_int (e - 23)"
      "\<not> real_of_int m * 2 powr of_int (e - 23) \<le> - (2 ^ 128)"
    using assms(6) by linarith+
  ultimately show ?thesis
    using assms(1,4,5) by (simp add: np_float32_def Let_def)
qed

lemma np_float32_1: "np_float32 1 = Num32 1"
  using np_float32_normal [of 1 0 8388608]
  by (simp add: round_half_even_def powr_minus)

lemma np_float32_2: "np_float32 2 = Num32 2"
  using np_float32_normal [of 2 1 8388608]
  by (simp add: round_half_even_def powr_minus)

lemma np_float32_odd: "np_float32 16777217 = Num32 16777216"
  using np_float32_normal [of 16777217 24 8388608]
  by (simp add: round_half_even_def)

lemma py_range_4: "py_range 4 = [0, 1, 2, 3]"
  by (simp add: py_range_def upt_rec numeral_eq_Suc)

lemma py_range_5: "py_range 5 = [0, 1, 2, 3, 4]"
  by (simp add: py_range_def upt_rec numeral_eq_Suc)

lemma py_range_3: "py_range 3 = [0, 1, 2]"
  by (simp add: py_range_def upt_rec numeral_eq_Suc)

lemma bare_road_geometry: "road_geometry (bare_road gs) = gs"
  by (simp add: bare_road_def)

lemma py_range_1: "py_range 1 = [0]"
  by (simp add: py_range_def)

lemma float32_to_num_small: "float32_to_num (np_float32 1) = 1" "float32_to_num (np_float32 2) = 2"
  by (simp_all add: np_float32_1 np_float32_2 float32_to_num_def)

theorem height_last_write_wins_witness:
  "(\<exists>grid. xodr_to_ground_height [bare_road [east_primitive, north_primitive]] (1/2) = Some grid \<and> grid ! 0 ! 0 = 2) \<and>
   (\<exists>grid. xodr_to_ground_height [bare_road [north_primitive, east_primitive]] (1/2) = Some grid \<and> grid ! 0 ! 0 = 1) \<and>
   (\<exists>grid. batch_convert_xodr_to_ground_height_multi [[bare_road [east_primitive, north_primitive]]] (1/2) = Some grid \<and> grid ! 0 ! 0 = 2) \<and>
   (\<exists>grid. batch_convert_xodr_to_ground_height_multi [[bare_road [north_primitive, east_primitive]]] (1/2) = Some grid \<and> grid ! 0 ! 0 = 1) \<and>
   (\<exists>grid. batch_convert_xodr_to_ground_height_multi [[bare_road [east_primitive, north_primitive\<lparr>geo_x := 2\<rparr>]]] (1/2) = Some grid \<and> grid ! 0 ! 4 = 2) \<and>
   (\<exists>grid. batch_convert_xodr_to_ground_height_multi [[bare_road [north_primitive\<lparr>geo_x := 2\<rparr>, east_primitive]]] (1/2) = Some grid \<and> grid ! 0 ! 4 = 1)"
proof -
  have b: "calculate_map_bounds_hight [(bare_road [])\<lparr>road_geometry := [east_primitive, north_primitive]\<rparr>] = Some (0, 2, 0, 2)"
    by (simp add: calculate_map_bounds_hight_def fold_geometry_def bare_road_def east_primitive_def
        north_primitive_def x_end_def y_end_def)
  have b2: "calculate_map_bounds_hight [(bare_road [])\<lparr>road_geometry := [east_primitive, north_primitive\<lparr>geo_x := 2\<rparr>]\<rparr>] = Some (0, 2, 0, 2)"
    by (simp add: calculate_map_bounds_hight_def fold_geometry_def bare_road_def east_primitive_def
        north_primitive_def x_end_def y_end_def)
  have e: "geo_elevation east_primitive = Some 1" "geo_elevation north_primitive = Some 2"
      "geo_elevation (north_primitive\<lparr>geo_x := 2\<rparr>) = Some 2"
    by (simp_all add: east_primitive_def north_primitive_def)
  have s: "(0, 0) \<in> fst ` set (height_writes (1/2) 0 0 east_primitive)"
      "(0, 0) \<in> fst ` set (height_writes (1/2) 0 0 north_primitive)"
    by (simp_all add: height_writes_def east_primitive_def north_primitive_def py_int_def py_range_4
        centre_x_def centre_y_def)
  have m: "(0, 0) \<in> fst ` set (height_writes_multi (1/2) 0 0 east_primitive)"
      "(0, 0) \<in> fst ` set (height_writes_multi (1/2) 0 0 north_primitive)"
    by (simp_all add: height_writes_multi_def east_primitive_def north_primitive_def py_int_def py_range_5
        centre_x_def centre_y_def)
  have m2: "(0, 4) \<in> fst ` set (height_writes_multi (1/2) 0 0 east_primitive)"
      "(0, 4) \<in> fst ` set (height_writes_multi (1/2) 0 0 (north_primitive\<lparr>geo_x := 2\<rparr>))"
    by (simp_all add: height_writes_multi_def east_primitive_def north_primitive_def py_int_def py_range_5
        centre_x_def centre_y_def)
  have r: "grid_shape (0, 2, 0, 2) (1/2) = (4, 4)" "global_grid_shape (0, 2, 0, 2) (1/2) = (5, 5)"
    by (simp_all add: grid_shape_def global_grid_shape_def py_int_def)
  have u: "(bare_road [])\<lparr>road_geometry := gs\<rparr> = bare_road gs" for gs
    by (simp add: bare_road_def)
  note w1 = height_last_write_wins [OF b e(1,2), of "1/2" 0 0 0 0]
  note w2 = height_last_write_wins [OF b2 e(1,3), of "1/2" 0 0 0 4]
  from w1 w2 s m m2 show ?thesis
    by (simp add: u r float32_to_num_small)
qed

text \<open>
  The merging converter does not leave B's elevation itself in the cell: the elevation
  16777217 of the primitive written last is stored as the float32 16777216.
\<close>

theorem merged_height_cell_is_rounded:
  "geo_elevation point_primitive = Some 16777217 \<and>
   batch_convert_xodr_to_ground_height_multi [[bare_road [unit_primitive, point_primitive]]] (1/2) =
     Some [[16777216, 1, 1]]"
proof -
  have b: "global_bounds_hight [[bare_road [unit_primitive, point_primitive]]] = Some (0, 1, 0, 0)"
    by (simp add: global_bounds_hight_def calculate_map_bounds_hight_def fold_geometry_def merge_bounds_def
        bare_road_def unit_primitive_def point_primitive_def x_end_def y_end_def)
  have w: "concat (map (height_writes_multi (1/2) 0 0) [unit_primitive, point_primitive]) =
      [((0, 0), Num32 1), ((0, 1), Num32 1), ((0, 2), Num32 1), ((0, 0), Num32 16777216)]"
    by (simp add: height_writes_multi_def unit_primitive_def point_primitive_def py_int_def py_range_3
        py_range_1 centre_x_def centre_y_def np_float32_1 np_float32_odd)
  have g: "grid_writes 1 3 (np_full 1 3 Nan32)
      [((0, 0), Num32 1), ((0, 1), Num32 1), ((0, 2), Num32 1), ((0, 0), Num32 16777216)] =
      [[Num32 16777216, Num32 1, Num32 1]]"
    by (simp add: grid_writes_def grid_write_def np_full_def numeral_3_eq_3)
  have "batch_convert_xodr_to_ground_height_multi [[bare_road [unit_primitive, point_primitive]]] (1/2) =
     Some [[16777216, 1, 1]]"
    using w by (simp add: batch_convert_xodr_to_ground_height_multi_def b global_grid_shape_def
        bare_road_geometry g nan_to_num_def float32_to_num_def)
  then show ?thesis by (simp add: point_primitive_def)
qed

section \<open>Synthetic lane identifiers\<close>

lemma randint_seven_digits: "seven_digits (randint 1000000 9999999 raw)"
proof -
  have "raw mod 9000000 < 9000000" by simp
  then show ?thesis by (simp add: randint_def seven_digits_def)
qed

lemma generate_unique_lane_id_fresh:
  "generate_unique_lane_id existing tape = Some (lane_id, existing', tape') \<Longrightarrow>
     seven_digits lane_id \<and> lane_id \<notin> existing \<and> existing' = insert lane_id existing"
proof (induction tape)
  case Nil
  then show ?case by simp
next
  case (Cons raw tape)
  show ?case
  proof (cases "randint 1000000 9999999 raw \<in> existing")
    case True
    with Cons show ?thesis by (simp add: Let_def)
  next
    case False
    with Cons.prems randint_seven_digits [of raw] show ?thesis by (auto simp: Let_def)
  qed
qed

lemma issued_snoc:
  assumes "issued initial ids existing" "seven_digits i" "i \<notin> existing"
  shows "issued initial (ids @ [i]) (insert i existing)"
  using assms by (auto simp: issued_def)

lemma fold_option_invariant:
  assumes step: "\<And>s x s'. P s \<Longrightarrow> f s x = Some s' \<Longrightarrow> P s'"
    and "P s" and "fold_option f s xs = Some s'"
  shows "P s'"
  using assms(2,3)
proof (induction xs arbitrary: s)
  case Nil
  then show ?case by simp
next
  case (Cons x xs)
  from Cons.prems(2) obtain t where t: "f s x = Some t" "fold_option f t xs = Some s'"
    by (auto split: option.splits)
  from step [OF Cons.prems(1) t(1)] have "P t" .
  from Cons.IH [OF this t(2)] show ?case .
qed

lemma vm_lane_issued:
  assumes "vm_issued initial st" "vm_lane r ns st l = Some st'"
  shows "vm_issued initial st'"
proof -
  from assms(2) obtain i e t where g: "generate_unique_lane_id (vm_existing st) (vm_tape st) = Some (i, e, t)"
    by (auto simp: vm_lane_def split: option.splits)
  from generate_unique_lane_id_fresh [OF g]
  have f: "seven_digits i" "i \<notin> vm_existing st" "e = insert i (vm_existing st)" by simp_all
  from assms(1) have "issued initial (map way_lane_id (vm_ways st) @ [i]) (insert i (vm_existing st))"
    unfolding vm_issued_def using f(1,2) by (blast intro: issued_snoc)
  with assms g f(3) show ?thesis
    by (auto simp: vm_lane_def vm_issued_def)
qed

lemma vm_road_issued:
  assumes "vm_issued initial st" "vm_road st r = Some st'"
  shows "vm_issued initial st'"
proof -
  let ?st = "st\<lparr>vm_nodes := vm_nodes st @ road_nodes (vm_node_id st) r,
               vm_node_id := vm_node_id st + length (road_geometry r)\<rparr>"
  have "vm_issued initial ?st" using assms(1) by (simp add: vm_issued_def)
  moreover have "fold_option (vm_lane r (road_nodes (vm_node_id st) r)) ?st (map snd (road_lanes r)) = Some st'"
    using assms(2) by (simp add: vm_road_def Let_def)
  ultimately show ?thesis
    by (rule fold_option_invariant [rotated]) (rule vm_lane_issued)
qed

lemma parse_xodr_to_vector_map_issued:
  assumes "parse_xodr_to_vector_map doc existing tape = Some (nodes, ways, mapping, existing', tape')"
  shows "issued existing (map way_lane_id ways) existing' \<and> map snd mapping = map way_lane_id ways"
proof -
  let ?st = "\<lparr>vm_nodes = [], vm_ways = [], vm_node_id = 0, vm_mapping = [], vm_table_idx = 0,
           vm_existing = existing, vm_tape = tape\<rparr>"
  from assms obtain st where st: "fold_option vm_road ?st doc = Some st"
      "vm_ways st = ways" "vm_existing st = existing'" "vm_mapping st = mapping"
    by (auto simp: parse_xodr_to_vector_map_def)
  have "vm_issued existing ?st" by (simp add: vm_issued_def issued_def)
  then have "vm_issued existing st"
    using st(1) by (rule fold_option_invariant [rotated]) (rule vm_road_issued)
  with st show ?thesis by (simp add: vm_issued_def)
qed

lemma dedup_lane_issued:
  assumes "global_issued st" "dedup_lane hsh ns st l = Some st'"
  shows "global_issued st'"
proof (cases "map_of (global_ways st) (hsh (node_coordinates ns, attr_or (lane_type l) ''driving'',
            attr_or (lane_width_attr l) ''3.5'')) = None")
  case False
  with assms show ?thesis by (simp add: dedup_lane_def Let_def)
next
  case True
  with assms(2) obtain i e t where g: "generate_unique_lane_id (existing_lane_ids st) (random_tape st) = Some (i, e, t)"
    by (auto simp: dedup_lane_def Let_def split: option.splits)
  from generate_unique_lane_id_fresh [OF g]
  have f: "seven_digits i" "i \<notin> existing_lane_ids st" "e = insert i (existing_lane_ids st)" by simp_all
  from assms(1) have "issued {} (map (way_lane_id \<circ> snd) (global_ways st) @ [i]) (insert i (existing_lane_ids st))"
    unfolding global_issued_def using f(1,2) by (blast intro: issued_snoc)
  with assms True g f(3) show ?thesis
    by (auto simp: dedup_lane_def global_issued_def Let_def)
qed

lemma dedup_road_issued:
  assumes "global_issued st" "dedup_road hsh st r = Some st'"
  shows "global_issued st'"
proof -
  obtain nodes ns where a: "foldl add_node (global_nodes st, []) (road_geometry r) = (nodes, ns)"
    by (cases "foldl add_node (global_nodes st, []) (road_geometry r)")
  have i: "global_issued (st\<lparr>global_nodes := nodes\<rparr>)"
    using assms(1) by (simp add: global_issued_def)
  show ?thesis
  proof (cases "ns = []")
    case True
    with assms(2) a i show ?thesis by (simp add: dedup_road_def)
  next
    case False
    with assms(2) a
    have "fold_option (dedup_lane hsh ns) (st\<lparr>global_nodes := nodes\<rparr>) (map snd (road_lanes r)) = Some st'"
      by (simp add: dedup_road_def)
    with i show ?thesis
      by (rule fold_option_invariant [rotated]) (rule dedup_lane_issued)
  qed
qed

lemma dedup_documents_issued:
  assumes "dedup_documents hsh (initial_state tape) docs = Some st"
  shows "global_issued st"
proof -
  have "global_issued (initial_state tape)"
    by (simp add: global_issued_def initial_state_def issued_def)
  then show ?thesis
    using assms unfolding dedup_documents_def
    by (rule fold_option_invariant [rotated]) (rule dedup_road_issued)
qed

lemma convert_document_outputs:
  assumes "\<forall>out\<in>set (fst acc). P out"
    and "\<And>doc tape nodes ways mapping e t.
           parse_xodr_to_vector_map doc {} tape = Some (nodes, ways, mapping, e, t) \<Longrightarrow> P (nodes, ways, mapping)"
    and "convert_document acc doc = Some acc'"
  shows "\<forall>out\<in>set (fst acc'). P out"
  using assms by (auto simp: convert_document_def split: option.splits)

text \<open>
  C5, as amended: every synthetic lane identifier is an integer of exactly seven decimal
  digits.  The identifiers of one call of \<open>parse_xodr_to_vector_map\<close> are pairwise
  distinct and not in the set passed in; the per-document driver starts every document
  with an empty set, so its identifiers are pairwise distinct within each document's
  vector map; the merging driver keeps one set for the run, so the identifiers of the
  merged map are pairwise distinct across all input documents.
\<close>

theorem lane_ids_seven_digits_distinct:
  "(parse_xodr_to_vector_map doc existing tape = Some (nodes, ways, mapping, existing', tape') \<longrightarrow>
      distinct (map way_lane_id ways) \<and> map snd mapping = map way_lane_id ways \<and>
      (\<forall>w\<in>set ways. seven_digits (way_lane_id w) \<and> way_lane_id w \<notin> existing)) \<and>
   (batch_convert_xodr_to_vector_map_and_json docs tape = Some outs \<longrightarrow>
      (\<forall>out\<in>set outs. distinct (map way_lane_id (fst (snd out))) \<and>
         (\<forall>w\<in>set (fst (snd out)). seven_digits (way_lane_id w)))) \<and>
   (batch_convert_xodr_to_vector_map_and_json_multi hsh docs tape = Some (Some (gnodes, gways, gmapping)) \<longrightarrow>
      distinct (map way_lane_id gways) \<and> map snd gmapping = map way_lane_id gways \<and>
      (\<forall>w\<in>set gways. seven_digits (way_lane_id w)))"
proof -
  have single: "distinct (map way_lane_id ways) \<and> map snd mapping = map way_lane_id ways \<and>
      (\<forall>w\<in>set ways. seven_digits (way_lane_id w) \<and> way_lane_id w \<notin> existing)"
    if "parse_xodr_to_vector_map doc existing tape = Some (nodes, ways, mapping, existing', tape')"
    using parse_xodr_to_vector_map_issued [OF that] by (auto simp: issued_def)
  let ?P = "\<lambda>out :: node list \<times> way list \<times> (nat \<times> int) list. distinct (map way_lane_id (fst (snd out))) \<and>
         (\<forall>w\<in>set (fst (snd out)). seven_digits (way_lane_id w))"
  have parse: "?P (nodes, ways, mapping)"
    if "parse_xodr_to_vector_map doc {} tape = Some (nodes, ways, mapping, e, t)"
    for doc tape nodes ways mapping e t
    using parse_xodr_to_vector_map_issued [OF that] by (auto simp: issued_def)
  have step: "\<forall>out\<in>set (fst s'). ?P out"
    if "\<forall>out\<in>set (fst s). ?P out" "convert_document s d = Some s'" for s d s'
    by (rule convert_document_outputs [where P = ?P, OF that(1) parse that(2)])
  have batch: "\<forall>out\<in>set outs. ?P out"
    if "batch_convert_xodr_to_vector_map_and_json docs tape = Some outs"
  proof -
    from that obtain t where f: "fold_option convert_document ([], tape) docs = Some (outs, t)"
      by (auto simp: batch_convert_xodr_to_vector_map_and_json_def)
    have "\<forall>out\<in>set (fst (outs, t)). ?P out"
      by (rule fold_option_invariant [where P = "\<lambda>s. \<forall>out\<in>set (fst s). ?P out", OF step _ f]) simp_all
    then show ?thesis by simp
  qed
  have multi: "distinct (map way_lane_id gways) \<and> map snd gmapping = map way_lane_id gways \<and>
      (\<forall>w\<in>set gways. seven_digits (way_lane_id w))"
    if "batch_convert_xodr_to_vector_map_and_json_multi hsh docs tape = Some (Some (gnodes, gways, gmapping))"
  proof -
    from that obtain st where st: "dedup_documents hsh (initial_state tape) docs = Some st"
        "gways = map snd (global_ways st)" "gmapping = global_mapping st"
      by (auto simp: batch_convert_xodr_to_vector_map_and_json_multi_def save_merged_def split: if_splits)
    from dedup_documents_issued [OF st(1)] st(2,3) show ?thesis
      by (auto simp: global_issued_def issued_def)
  qed
  from single batch multi show ?thesis by blast
qed

lemma parse_straight_twice:
  "parse_xodr_to_vector_map [straight_road, straight_road] {} [7, 7, 8] =
     Some ([origin_node 0, origin_node 1],
           [plain_way 1000007 [origin_node 0], plain_way 1000008 [origin_node 1]],
           [(0, 1000007), (1, 1000008)], {1000007, 1000008}, [])"
  by (simp add: parse_xodr_to_vector_map_def vm_road_def vm_lane_def road_nodes_def road_lanes_def
      straight_road_def straight_geometry_def driving_lane_def randint_def link_ids_def attr_or_def
      origin_node_def plain_way_def insert_commute Let_def)

theorem lane_ids_seven_digits_distinct_witness:
  "parse_xodr_to_vector_map [straight_road, straight_road] {} [7, 7, 8] =
     Some ([origin_node 0, origin_node 1],
           [plain_way 1000007 [origin_node 0], plain_way 1000008 [origin_node 1]],
           [(0, 1000007), (1, 1000008)], {1000007, 1000008}, []) \<and>
   distinct (map way_lane_id [plain_way 1000007 [origin_node 0], plain_way 1000008 [origin_node 1]]) \<and>
   seven_digits (way_lane_id (plain_way 1000007 [origin_node 0])) \<and>
   seven_digits (way_lane_id (plain_way 1000008 [origin_node 1]))"
  using lane_ids_seven_digits_distinct [of "[straight_road, straight_road]" "{}" "[7, 7, 8]"
      "[origin_node 0, origin_node 1]"
      "[plain_way 1000007 [origin_node 0], plain_way 1000008 [origin_node 1]]"
      "[(0, 1000007), (1, 1000008)]" "{1000007, 1000008}" "[]"]
    parse_straight_twice
  by (simp add: seven_digits_def plain_way_def)

text \<open>
  The per-document driver issues the same identifier to lanes of two documents of one
  run when the generator repeats a draw.
\<close>

theorem lane_ids_repeat_across_documents:
  "batch_convert_xodr_to_vector_map_and_json [[straight_road], [straight_road]] [0, 0] =
     Some [([origin_node 0], [plain_way 1000000 [origin_node 0]], [(0, 1000000)]),
           ([origin_node 0], [plain_way 1000000 [origin_node 0]], [(0, 1000000)])]"
  by (simp add: batch_convert_xodr_to_vector_map_and_json_def convert_document_def
      parse_xodr_to_vector_map_def vm_road_def vm_lane_def road_nodes_def road_lanes_def
      straight_road_def straight_geometry_def driving_lane_def randint_def link_ids_def attr_or_def
      origin_node_def plain_way_def Let_def)

section \<open>Deduplication of lanes in the merged vector map\<close>

lemma extends_refl: "extends st st"
  by (simp add: extends_def)

lemma extends_trans: "extends a b \<Longrightarrow> extends b c \<Longrightarrow> extends a c"
  by (auto simp: extends_def)

lemma has_key_extends: "has_key st h \<Longrightarrow> extends st st' \<Longrightarrow> has_key st' h"
  by (auto simp: has_key_def extends_def)

lemma add_node_keyed:
  assumes "nodes_keyed (fst acc)"
  shows "nodes_keyed (fst (add_node acc g)) \<and> fst (add_node acc g) \<noteq> [] \<and>
         node_coordinates (snd (add_node acc g)) =
           node_coordinates (snd acc) @ [(py_round4 (geo_x g), py_round4 (geo_y g))]"
proof (cases "map_of (fst acc) (py_round4 (geo_x g), py_round4 (geo_y g))")
  case None
  with assms show ?thesis
    by (simp add: add_node_def Let_def nodes_keyed_def node_coordinates_def map_add_def)
next
  case (Some n)
  then have "((py_round4 (geo_x g), py_round4 (geo_y g)), n) \<in> set (fst acc)"
    by (rule map_of_SomeD)
  with assms have "(node_x n, node_y n) = (py_round4 (geo_x g), py_round4 (geo_y g))" "fst acc \<noteq> []"
    by (auto simp: nodes_keyed_def)
  with assms Some show ?thesis
    by (simp add: add_node_def Let_def node_coordinates_def)
qed

lemma foldl_add_node_keyed:
  assumes "nodes_keyed (fst acc)"
  shows "nodes_keyed (fst (foldl add_node acc gs)) \<and>
         (gs \<noteq> [] \<or> fst acc \<noteq> [] \<longrightarrow> fst (foldl add_node acc gs) \<noteq> []) \<and>
         node_coordinates (snd (foldl add_node acc gs)) =
           node_coordinates (snd acc) @ map (\<lambda>g. (py_round4 (geo_x g), py_round4 (geo_y g))) gs"
  using assms
proof (induction gs arbitrary: acc)
  case Nil
  then show ?case by simp
next
  case (Cons g gs)
  note a = add_node_keyed [OF Cons.prems, of g]
  from a have k: "nodes_keyed (fst (add_node acc g))" by simp
  from Cons.IH [OF k] a show ?case by simp
qed

lemma road_node_list:
  assumes "nodes_keyed (global_nodes st)"
    and "foldl add_node (global_nodes st, []) (road_geometry r) = (nodes, ns)"
  shows "nodes_keyed nodes \<and> node_coordinates ns = rounded_coordinates r \<and>
         (ns = [] \<longleftrightarrow> road_geometry r = []) \<and>
         (road_geometry r \<noteq> [] \<or> global_nodes st \<noteq> [] \<longrightarrow> nodes \<noteq> [])"
proof -
  from foldl_add_node_keyed [of "(global_nodes st, [])" "road_geometry r"] assms
  have f: "nodes_keyed nodes" "node_coordinates ns = rounded_coordinates r"
      "road_geometry r \<noteq> [] \<or> global_nodes st \<noteq> [] \<longrightarrow> nodes \<noteq> []"
    by (simp_all add: rounded_coordinates_def node_coordinates_def)
  from f(2) have "length ns = length (road_geometry r)"
    by (metis length_map node_coordinates_def rounded_coordinates_def)
  then have "ns = [] \<longleftrightarrow> road_geometry r = []" by auto
  with f show ?thesis by simp
qed

lemma dedup_lane_inv:
  assumes inv: "dedup_inv hsh S st" and nodes: "global_nodes st \<noteq> []"
    and key: "(node_coordinates ns, attr_or (lane_type l) ''driving'', attr_or (lane_width_attr l) ''3.5'') \<in> S"
    and run: "dedup_lane hsh ns st l = Some st'"
  shows "dedup_inv hsh S st' \<and> global_nodes st' = global_nodes st \<and> extends st st' \<and>
         has_key st' (hsh (node_coordinates ns, attr_or (lane_type l) ''driving'',
                           attr_or (lane_width_attr l) ''3.5''))"
proof -
  let ?K = "(node_coordinates ns, attr_or (lane_type l) ''driving'', attr_or (lane_width_attr l) ''3.5'')"
  show ?thesis
  proof (cases "map_of (global_ways st) (hsh ?K)")
    case (Some w)
    then have "st' = st" using run by (simp add: dedup_lane_def Let_def)
    moreover have "has_key st (hsh ?K)"
      using Some unfolding has_key_def by (metis domI dom_map_of_conv_image_fst)
    ultimately show ?thesis using inv by (simp add: extends_refl)
  next
    case None
    then have fresh: "hsh ?K \<notin> fst ` set (global_ways st)"
      by (simp add: map_of_eq_None_iff)
    from run None obtain i e t where
      g: "generate_unique_lane_id (existing_lane_ids st) (random_tape st) = Some (i, e, t)"
      by (auto simp: dedup_lane_def Let_def split: option.splits)
    define w where "w = \<lparr>way_lane_id = i, way_lane_type = attr_or (lane_type l) ''driving'',
        way_width = attr_or (lane_width_attr l) ''3.5'', way_geometry = ns,
        way_predecessor = [], way_successor = [],
        way_l_neighbor_id = (case lane_neighbors l of None \<Rightarrow> ''None'' | Some nb \<Rightarrow> attr_or (fst nb) ''None''),
        way_r_neighbor_id = (case lane_neighbors l of None \<Rightarrow> ''None'' | Some nb \<Rightarrow> attr_or (snd nb) ''None'')\<rparr>"
    have wk: "way_key w = ?K" by (simp add: way_key_def w_def)
    from run None g have st': "global_ways st' = global_ways st @ [(hsh ?K, w)]"
        "global_nodes st' = global_nodes st"
      by (auto simp add: dedup_lane_def Let_def w_def)
    from inv fresh key wk st' nodes have "dedup_inv hsh S st'"
      by (auto simp: dedup_inv_def)
    moreover have "extends st st'" using st'(1) by (auto simp: extends_def)
    moreover have "has_key st' (hsh ?K)" using st'(1) by (simp add: has_key_def)
    ultimately show ?thesis using st'(2) by simp
  qed
qed

lemma dedup_lanes_inv:
  assumes "dedup_inv hsh S st" and "global_nodes st \<noteq> []"
    and "\<forall>l\<in>set ls. (node_coordinates ns, attr_or (lane_type l) ''driving'', attr_or (lane_width_attr l) ''3.5'') \<in> S"
    and "fold_option (dedup_lane hsh ns) st ls = Some st'"
  shows "dedup_inv hsh S st' \<and> global_nodes st' = global_nodes st \<and> extends st st' \<and>
         (\<forall>l\<in>set ls. has_key st' (hsh (node_coordinates ns, attr_or (lane_type l) ''driving'',
                           attr_or (lane_width_attr l) ''3.5'')))"
  using assms
proof (induction ls arbitrary: st)
  case Nil
  then show ?case by (simp add: extends_refl)
next
  case (Cons l ls)
  from Cons.prems(4) obtain t where t: "dedup_lane hsh ns st l = Some t"
      "fold_option (dedup_lane hsh ns) t ls = Some st'"
    by (auto split: option.splits)
  from Cons.prems(3) have k: "(node_coordinates ns, attr_or (lane_type l) ''driving'', attr_or (lane_width_attr l) ''3.5'') \<in> S"
    and ks: "\<forall>l\<in>set ls. (node_coordinates ns, attr_or (lane_type l) ''driving'', attr_or (lane_width_attr l) ''3.5'') \<in> S"
    by simp_all
  note one = dedup_lane_inv [OF Cons.prems(1,2) k t(1)]
  from one Cons.prems(2) have tn: "dedup_inv hsh S t" "global_nodes t \<noteq> []" by simp_all
  note rest = Cons.IH [OF tn ks t(2)]
  from one rest show ?case
    by (auto intro: extends_trans has_key_extends)
qed

lemma dedup_road_inv:
  assumes inv: "dedup_inv hsh S st" and keys: "set (road_lane_keys r) \<subseteq> S"
    and run: "dedup_road hsh st r = Some st'"
  shows "dedup_inv hsh S st' \<and> extends st st' \<and> (\<forall>K\<in>set (road_lane_keys r). has_key st' (hsh K))"
proof -
  obtain nodes ns where a: "foldl add_node (global_nodes st, []) (road_geometry r) = (nodes, ns)"
    by (cases "foldl add_node (global_nodes st, []) (road_geometry r)")
  from inv have nk: "nodes_keyed (global_nodes st)" by (simp add: dedup_inv_def)
  note rn = road_node_list [OF nk a]
  let ?st = "st\<lparr>global_nodes := nodes\<rparr>"
  from inv rn have inv': "dedup_inv hsh S ?st" by (auto simp: dedup_inv_def)
  have ext: "extends st ?st" by (simp add: extends_def)
  show ?thesis
  proof (cases "road_geometry r = []")
    case True
    with rn have "ns = []" by simp
    with run a have "st' = ?st" by (simp add: dedup_road_def)
    with inv' ext True show ?thesis by (simp add: road_lane_keys_def)
  next
    case False
    with rn have ns: "ns \<noteq> []" "nodes \<noteq> []" by simp_all
    with run a have f: "fold_option (dedup_lane hsh ns) ?st (map snd (road_lanes r)) = Some st'"
      by (simp add: dedup_road_def)
    have k: "\<forall>l\<in>set (map snd (road_lanes r)).
        (node_coordinates ns, attr_or (lane_type l) ''driving'', attr_or (lane_width_attr l) ''3.5'') \<in> S"
      using keys False rn by (auto simp: road_lane_keys_def)
    have n: "global_nodes ?st \<noteq> []" using ns by simp
    from dedup_lanes_inv [OF inv' n k f] ext False rn show ?thesis
      by (auto simp: road_lane_keys_def intro: extends_trans)
  qed
qed

lemma dedup_roads_inv:
  assumes "dedup_inv hsh S st" and "\<forall>r\<in>set rs. set (road_lane_keys r) \<subseteq> S"
    and "fold_option (dedup_road hsh) st rs = Some st'"
  shows "dedup_inv hsh S st' \<and> extends st st' \<and>
         (\<forall>r\<in>set rs. \<forall>K\<in>set (road_lane_keys r). has_key st' (hsh K))"
  using assms
proof (induction rs arbitrary: st)
  case Nil
  then show ?case by (simp add: extends_refl)
next
  case (Cons r rs)
  from Cons.prems(3) obtain t where t: "dedup_road hsh st r = Some t"
      "fold_option (dedup_road hsh) t rs = Some st'"
    by (auto split: option.splits)
  from Cons.prems(2) have k: "set (road_lane_keys r) \<subseteq> S"
    and ks: "\<forall>r\<in>set rs. set (road_lane_keys r) \<subseteq> S" by simp_all
  note one = dedup_road_inv [OF Cons.prems(1) k t(1)]
  from one have "dedup_inv hsh S t" by simp
  note rest = Cons.IH [OF this ks t(2)]
  from one rest show ?case
    by (auto intro: extends_trans has_key_extends)
qed

lemma fold_option_append:
  "fold_option f s (xs @ ys) = Some s'' \<Longrightarrow>
     \<exists>s'. fold_option f s xs = Some s' \<and> fold_option f s' ys = Some s''"
  by (induction xs arbitrary: s) (auto split: option.splits)

lemma dedup_documents_inv:
  assumes "dedup_inv hsh S st" and "set (lane_keys docs) \<subseteq> S"
    and "dedup_documents hsh st docs = Some st'"
  shows "dedup_inv hsh S st' \<and> extends st st' \<and> (\<forall>K\<in>set (lane_keys docs). has_key st' (hsh K))"
proof -
  from assms(2) have "\<forall>r\<in>set (concat docs). set (road_lane_keys r) \<subseteq> S"
    by (auto simp: lane_keys_def)
  from dedup_roads_inv [OF assms(1) this] assms(3) show ?thesis
    by (auto simp: dedup_documents_def lane_keys_def)
qed

lemma dedup_inv_initial: "dedup_inv hsh S (initial_state tape)"
  by (simp add: dedup_inv_def initial_state_def nodes_keyed_def)

lemma filter_key_single:
  assumes "distinct (map fst xs)" "k \<in> fst ` set xs"
  shows "\<exists>v. filter (\<lambda>e. fst e = k) xs = [(k, v)]"
  using assms
proof (induction xs)
  case Nil
  then show ?case by simp
next
  case (Cons x xs)
  show ?case
  proof (cases "fst x = k")
    case True
    with Cons.prems(1) have "k \<notin> fst ` set xs" by auto
    then have "\<forall>e\<in>set xs. fst e \<noteq> k" by force
    then have "filter (\<lambda>e. fst e = k) xs = []"
      by (simp add: filter_empty_conv)
    with True show ?thesis by (cases x) auto
  next
    case False
    with Cons show ?thesis by auto
  qed
qed

lemma lane_keys_append: "lane_keys (a @ b) = lane_keys a @ lane_keys b"
  by (simp add: lane_keys_def)

lemma dedup_documents_append:
  assumes "dedup_documents hsh st (a @ b) = Some st''"
  shows "\<exists>st'. dedup_documents hsh st a = Some st' \<and> dedup_documents hsh st' b = Some st''"
  using assms unfolding dedup_documents_def by (simp add: fold_option_append)

lemma filter_key_ways:
  assumes "\<forall>e\<in>set gw. fst e = hsh (way_key (snd e)) \<and> way_key (snd e) \<in> S"
    and "\<forall>K'\<in>S. hsh K' = hsh K \<longrightarrow> K' = K"
  shows "filter (\<lambda>w. way_key w = K) (map snd gw) = map snd (filter (\<lambda>e. fst e = hsh K) gw)"
proof -
  have "way_key (snd e) = K \<longleftrightarrow> fst e = hsh K" if "e \<in> set gw" for e
    using assms that by auto
  then have "filter ((\<lambda>w. way_key w = K) \<circ> snd) gw = filter (\<lambda>e. fst e = hsh K) gw"
    by (intro filter_cong) simp_all
  then show ?thesis by (simp add: filter_map)
qed

lemma save_merged_ways:
  assumes "dedup_inv hsh S st" "has_key st h"
  shows "save_merged st = Some (map snd (global_nodes st), map snd (global_ways st), global_mapping st)"
proof -
  from assms(2) have "global_ways st \<noteq> []" by (auto simp: has_key_def)
  with assms(1) show ?thesis by (simp add: save_merged_def dedup_inv_def)
qed

lemma dedup_same_lane_result:
  assumes run: "batch_convert_xodr_to_vector_map_and_json_multi hsh (pre @ [d1] @ mid @ [d2] @ post) tape = Some out"
    and k1: "K \<in> set (lane_keys [d1])"
    and sep: "\<forall>K'\<in>set (lane_keys (pre @ [d1] @ mid @ [d2] @ post)). hsh K' = hsh K \<longrightarrow> K' = K"
  shows "\<exists>nodes ways mapping w.
           out = Some (nodes, ways, mapping) \<and> filter (\<lambda>w'. way_key w' = K) ways = [w] \<and>
           (\<exists>nodes1 ways1 mapping1.
              batch_convert_xodr_to_vector_map_and_json_multi hsh (pre @ [d1]) tape =
                Some (Some (nodes1, ways1, mapping1)) \<and>
              filter (\<lambda>w'. way_key w' = K) ways1 = [w])"
proof -
  let ?S = "set (lane_keys (pre @ [d1] @ mid @ [d2] @ post))"
  from run obtain st where st: "dedup_documents hsh (initial_state tape) ((pre @ [d1]) @ (mid @ [d2] @ post)) = Some st"
      "out = save_merged st"
    by (auto simp: batch_convert_xodr_to_vector_map_and_json_multi_def)
  from dedup_documents_append [OF st(1)] obtain st1 where
    st1: "dedup_documents hsh (initial_state tape) (pre @ [d1]) = Some st1"
      "dedup_documents hsh st1 (mid @ [d2] @ post) = Some st"
    by blast
  have sub1: "set (lane_keys (pre @ [d1])) \<subseteq> ?S" and sub2: "set (lane_keys (mid @ [d2] @ post)) \<subseteq> ?S"
    by (auto simp: lane_keys_def)
  have KS: "K \<in> ?S" and K1: "K \<in> set (lane_keys (pre @ [d1]))"
    using k1 by (auto simp: lane_keys_def)
  note i1 = dedup_documents_inv [OF dedup_inv_initial sub1 st1(1)]
  from i1 have inv1: "dedup_inv hsh ?S st1" by simp
  from i1 K1 have key1: "has_key st1 (hsh K)" by blast
  note i2 = dedup_documents_inv [OF inv1 sub2 st1(2)]
  from i2 have inv: "dedup_inv hsh ?S st" and ext: "extends st1 st" by simp_all
  from key1 ext have key: "has_key st (hsh K)" by (rule has_key_extends)
  from inv1 key1 obtain w where w1: "filter (\<lambda>e. fst e = hsh K) (global_ways st1) = [(hsh K, w)]"
    using filter_key_single [of "global_ways st1" "hsh K"] by (auto simp: dedup_inv_def has_key_def)
  from inv key obtain w' where w2: "filter (\<lambda>e. fst e = hsh K) (global_ways st) = [(hsh K, w')]"
    using filter_key_single [of "global_ways st" "hsh K"] by (auto simp: dedup_inv_def has_key_def)
  from ext obtain rest where rest: "global_ways st = global_ways st1 @ rest"
    by (auto simp: extends_def)
  from w1 w2 rest have "w' = w"
    by (cases "filter (\<lambda>e. fst e = hsh K) rest") simp_all
  with w2 have w2': "filter (\<lambda>e. fst e = hsh K) (global_ways st) = [(hsh K, w)]" by simp
  have f1: "filter (\<lambda>v. way_key v = K) (map snd (global_ways st1)) = [w]"
    using inv1 sep w1 by (subst filter_key_ways [where hsh = hsh and S = ?S]) (simp_all add: dedup_inv_def)
  have f2: "filter (\<lambda>v. way_key v = K) (map snd (global_ways st)) = [w]"
    using inv sep w2' by (subst filter_key_ways [where hsh = hsh and S = ?S]) (simp_all add: dedup_inv_def)
  have o1: "batch_convert_xodr_to_vector_map_and_json_multi hsh (pre @ [d1]) tape =
      Some (Some (map snd (global_nodes st1), map snd (global_ways st1), global_mapping st1))"
    using st1(1) save_merged_ways [OF inv1 key1]
    by (simp add: batch_convert_xodr_to_vector_map_and_json_multi_def)
  have o2: "out = Some (map snd (global_nodes st), map snd (global_ways st), global_mapping st)"
    using st(2) save_merged_ways [OF inv key] by simp
  from o1 o2 f1 f2 show ?thesis by blast
qed

lemma generate_unique_lane_id_returns:
  assumes "fresh_tape existing (raw # tape)"
  shows "generate_unique_lane_id existing (raw # tape) =
           Some (randint 1000000 9999999 raw, insert (randint 1000000 9999999 raw) existing, tape) \<and>
         fresh_tape (insert (randint 1000000 9999999 raw) existing) tape"
  using assms by (auto simp: fresh_tape_def draws_def Let_def)

lemma dedup_lane_returns:
  assumes "fresh_tape (existing_lane_ids st) (random_tape st)" "random_tape st \<noteq> []"
  shows "\<exists>st'. dedup_lane hsh ns st l = Some st' \<and>
           fresh_tape (existing_lane_ids st') (random_tape st') \<and>
           length (random_tape st) \<le> length (random_tape st') + 1"
proof -
  from assms(2) obtain raw tape where t: "random_tape st = raw # tape"
    by (cases "random_tape st") auto
  note g = generate_unique_lane_id_returns [OF assms(1) [unfolded t]]
  show ?thesis
  proof (cases "map_of (global_ways st) (hsh (node_coordinates ns, attr_or (lane_type l) ''driving'',
            attr_or (lane_width_attr l) ''3.5'')) = None")
    case False
    with assms(1) show ?thesis by (auto simp: dedup_lane_def Let_def)
  next
    case True
    with g t show ?thesis by (simp add: dedup_lane_def Let_def)
  qed
qed

lemma dedup_lanes_returns:
  assumes "fresh_tape (existing_lane_ids st) (random_tape st)" "length ls \<le> length (random_tape st)"
  shows "\<exists>st'. fold_option (dedup_lane hsh ns) st ls = Some st' \<and>
           fresh_tape (existing_lane_ids st') (random_tape st') \<and>
           length (random_tape st) \<le> length (random_tape st') + length ls"
  using assms
proof (induction ls arbitrary: st)
  case Nil
  then show ?case by simp
next
  case (Cons l ls)
  from Cons.prems(2) have ne: "random_tape st \<noteq> []" by auto
  from dedup_lane_returns [OF Cons.prems(1) ne, of hsh ns l] obtain t where
    t: "dedup_lane hsh ns st l = Some t" "fresh_tape (existing_lane_ids t) (random_tape t)"
      "length (random_tape st) \<le> length (random_tape t) + 1"
    by blast
  from t(3) Cons.prems(2) have "length ls \<le> length (random_tape t)" by simp
  from Cons.IH [OF t(2) this] obtain st' where
    "fold_option (dedup_lane hsh ns) t ls = Some st'" "fresh_tape (existing_lane_ids st') (random_tape st')"
      "length (random_tape t) \<le> length (random_tape st') + length ls"
    by blast
  with t show ?case by auto
qed

lemma dedup_road_returns:
  assumes "fresh_tape (existing_lane_ids st) (random_tape st)"
    and "length (road_lanes r) \<le> length (random_tape st)"
  shows "\<exists>st'. dedup_road hsh st r = Some st' \<and>
           fresh_tape (existing_lane_ids st') (random_tape st') \<and>
           length (random_tape st) \<le> length (random_tape st') + length (road_lanes r)"
proof -
  obtain nodes ns where a: "foldl add_node (global_nodes st, []) (road_geometry r) = (nodes, ns)"
    by (cases "foldl add_node (global_nodes st, []) (road_geometry r)")
  let ?st = "st\<lparr>global_nodes := nodes\<rparr>"
  show ?thesis
  proof (cases "ns = []")
    case True
    with a assms(1) show ?thesis by (simp add: dedup_road_def)
  next
    case False
    from assms have "fresh_tape (existing_lane_ids ?st) (random_tape ?st)"
        "length (map snd (road_lanes r)) \<le> length (random_tape ?st)" by simp_all
    from dedup_lanes_returns [OF this, of hsh ns] a False show ?thesis
      by (simp add: dedup_road_def)
  qed
qed

lemma dedup_roads_returns:
  assumes "fresh_tape (existing_lane_ids st) (random_tape st)"
    and "sum_list (map (\<lambda>r. length (road_lanes r)) rs) \<le> length (random_tape st)"
  shows "\<exists>st'. fold_option (dedup_road hsh) st rs = Some st'"
  using assms
proof (induction rs arbitrary: st)
  case Nil
  then show ?case by simp
next
  case (Cons r rs)
  from Cons.prems(2) have "length (road_lanes r) \<le> length (random_tape st)" by simp
  from dedup_road_returns [OF Cons.prems(1) this, of hsh] obtain t where
    t: "dedup_road hsh st r = Some t" "fresh_tape (existing_lane_ids t) (random_tape t)"
      "length (random_tape st) \<le> length (random_tape t) + length (road_lanes r)"
    by blast
  from t(3) Cons.prems(2) have "sum_list (map (\<lambda>r. length (road_lanes r)) rs) \<le> length (random_tape t)"
    by simp
  from Cons.IH [OF t(2) this] t(1) show ?case by simp
qed

lemma dedup_documents_returns:
  assumes "distinct (draws tape)" "lane_count docs \<le> length tape"
  shows "\<exists>out. batch_convert_xodr_to_vector_map_and_json_multi hsh docs tape = Some out"
proof -
  have "fresh_tape (existing_lane_ids (initial_state tape)) (random_tape (initial_state tape))"
    using assms(1) by (simp add: fresh_tape_def initial_state_def)
  moreover have "sum_list (map (\<lambda>r. length (road_lanes r)) (concat docs)) \<le> length (random_tape (initial_state tape))"
    using assms(2) by (simp add: lane_count_def initial_state_def)
  ultimately obtain st where "fold_option (dedup_road hsh) (initial_state tape) (concat docs) = Some st"
    using dedup_roads_returns by blast
  then show ?thesis
    by (simp add: batch_convert_xodr_to_vector_map_and_json_multi_def dedup_documents_def)
qed

text \<open>
  C2, as amended: in the merging (dedup) mode, when two input documents each contain a
  lane, of a road with at least one primitive, with the same key \<open>K\<close> (the same
  ordered node coordinates after rounding, the same type and the same width string), and
  no lane of the input with another key has the hash of \<open>K\<close>, the merged vector map
  contains exactly one lane record with that key, and it is the record, with the
  identifier, that the run has created by the end of the first of the two documents.
  The run returns on a tape of pairwise distinct draws that has a draw for every lane.
\<close>

theorem dedup_same_lane_once:
  assumes k1: "K \<in> set (lane_keys [d1])" and k2: "K \<in> set (lane_keys [d2])"
    and sep: "\<forall>K'\<in>set (lane_keys (pre @ [d1] @ mid @ [d2] @ post)). hsh K' = hsh K \<longrightarrow> K' = K"
  shows "(distinct (draws tape) \<and> lane_count (pre @ [d1] @ mid @ [d2] @ post) \<le> length tape \<longrightarrow>
            (\<exists>out. batch_convert_xodr_to_vector_map_and_json_multi hsh (pre @ [d1] @ mid @ [d2] @ post) tape = Some out)) \<and>
         (\<forall>out. batch_convert_xodr_to_vector_map_and_json_multi hsh (pre @ [d1] @ mid @ [d2] @ post) tape = Some out \<longrightarrow>
            (\<exists>nodes ways mapping w.
               out = Some (nodes, ways, mapping) \<and> filter (\<lambda>w'. way_key w' = K) ways = [w] \<and>
               (\<exists>nodes1 ways1 mapping1.
                  batch_convert_xodr_to_vector_map_and_json_multi hsh (pre @ [d1]) tape =
                    Some (Some (nodes1, ways1, mapping1)) \<and>
                  filter (\<lambda>w'. way_key w' = K) ways1 = [w])))"
  using dedup_documents_returns [of tape "pre @ [d1] @ mid @ [d2] @ post" hsh]
    dedup_same_lane_result [OF _ k1 sep]
  by blast

lemma straight_road_keys:
  "lane_keys [[straight_road]] = [([(0, 0)], ''driving'', ''3.5'')]"
  by (simp add: lane_keys_def road_lane_keys_def rounded_coordinates_def road_lanes_def
      straight_road_def straight_geometry_def driving_lane_def attr_or_def py_round4_def
      round_half_even_def)

lemma dedup_straight_twice:
  "batch_convert_xodr_to_vector_map_and_json_multi (\<lambda>k. 0) ([] @ [[straight_road]] @ [] @ [[straight_road]] @ []) [0] =
     Some (Some ([origin_node 0], [plain_way 1000000 [origin_node 0]], [(0, 1000000)]))"
  by (simp add: batch_convert_xodr_to_vector_map_and_json_multi_def dedup_documents_def dedup_road_def
      dedup_lane_def add_node_def save_merged_def initial_state_def road_lanes_def node_coordinates_def
      straight_road_def straight_geometry_def driving_lane_def attr_or_def py_round4_def
      round_half_even_def randint_def origin_node_def plain_way_def Let_def)

theorem dedup_same_lane_once_witness:
  "batch_convert_xodr_to_vector_map_and_json_multi (\<lambda>k. 0) [[straight_road], [straight_road]] [0] =
     Some (Some ([origin_node 0], [plain_way 1000000 [origin_node 0]], [(0, 1000000)])) \<and>
   ([(0, 0)], ''driving'', ''3.5'') \<in> set (lane_keys [[straight_road]]) \<and>
   lane_keys [[straight_road], [straight_road]] =
     [([(0, 0)], ''driving'', ''3.5''), ([(0, 0)], ''driving'', ''3.5'')] \<and>
   filter (\<lambda>w'. way_key w' = ([(0, 0)], ''driving'', ''3.5'')) [plain_way 1000000 [origin_node 0]] =
     [plain_way 1000000 [origin_node 0]]"
proof -
  have k: "([(0, 0)], ''driving'', ''3.5'') \<in> set (lane_keys [[straight_road]])"
    by (simp add: straight_road_keys)
  have l: "lane_keys [[straight_road], [straight_road]] =
     [([(0, 0)], ''driving'', ''3.5''), ([(0, 0)], ''driving'', ''3.5'')]"
    using lane_keys_append [of "[[straight_road]]" "[[straight_road]]"] by (simp add: straight_road_keys)
  then have i: "\<forall>K'\<in>set (lane_keys ([] @ [[straight_road]] @ [] @ [[straight_road]] @ [])).
      (\<lambda>k :: lane_key. 0 :: int) K' = (\<lambda>k :: lane_key. 0 :: int) ([(0, 0)], ''driving'', ''3.5'') \<longrightarrow>
      K' = ([(0, 0)], ''driving'', ''3.5'')"
    by simp
  from dedup_same_lane_once [OF k k i, of "[0]"] dedup_straight_twice k l
  show ?thesis
    by (simp add: way_key_def plain_way_def node_coordinates_def origin_node_def)
qed

lemma py_round4_integers: "py_round4 (- 1) = - 1" "py_round4 (- 2) = - 2" "py_round4 0 = 0"
  by (simp_all add: py_round4_def round_half_even_def)

lemma hash_integral_values: "hash_integral (- 1) = - 2" "hash_integral (- 2) = - 2" "hash_integral 0 = 0"
proof -
  have "\<lfloor>- 1 :: real\<rfloor> = - 1" using floor_of_int [of "- 1", where ?'a = real] by simp
  moreover have "\<lfloor>- 2 :: real\<rfloor> = - 2" using floor_of_int [of "- 2", where ?'a = real] by simp
  ultimately show "hash_integral (- 1) = - 2" "hash_integral (- 2) = - 2" "hash_integral 0 = 0"
    by (simp_all add: hash_integral_def)
qed

text \<open>
  Two inputs on which the merged map has no lane record for the lanes with a shared key.
  The documents with a road at \<open>x = -1\<close> follow one with a road at \<open>x = -2\<close>,
  whose lane has another key and the same hash: the table of ways is keyed by the hash
  alone, the two lanes are taken as already present, and the only record is that of the
  first document.  Two documents whose road has a lane and no primitive: the road is
  skipped and nothing is written.
\<close>

theorem dedup_drops_colliding_and_empty_lanes:
  "lane_keys [[west_road (- 1)]] = [([(- 1, 0)], ''driving'', ''3.5'')] \<and>
   batch_convert_xodr_to_vector_map_and_json_multi colliding_hash
       [[west_road (- 2)], [west_road (- 1)], [west_road (- 1)]] [0, 1, 2] =
     Some (Some ([\<lparr>node_id = 0, node_x = - 2, node_y = 0\<rparr>, \<lparr>node_id = 1, node_x = - 1, node_y = 0\<rparr>],
                 [plain_way 1000000 [\<lparr>node_id = 0, node_x = - 2, node_y = 0\<rparr>]],
                 [(0, 1000000)])) \<and>
   way_key (plain_way 1000000 [\<lparr>node_id = 0, node_x = - 2, node_y = 0\<rparr>]) = ([(- 2, 0)], ''driving'', ''3.5'') \<and>
   map (\<lambda>l. (rounded_coordinates road_without_primitive, attr_or (lane_type l) ''driving'',
               attr_or (lane_width_attr l) ''3.5'')) (map snd (road_lanes road_without_primitive)) =
     [([], ''driving'', ''3.5'')] \<and>
   batch_convert_xodr_to_vector_map_and_json_multi colliding_hash
       [[road_without_primitive], [road_without_primitive]] [0, 1] = Some None"
proof -
  have a: "lane_keys [[west_road (- 1)]] = [([(- 1, 0)], ''driving'', ''3.5'')]"
    by (simp add: lane_keys_def road_lane_keys_def rounded_coordinates_def road_lanes_def west_road_def
        driving_lane_def attr_or_def py_round4_integers)
  have b: "batch_convert_xodr_to_vector_map_and_json_multi colliding_hash
       [[west_road (- 2)], [west_road (- 1)], [west_road (- 1)]] [0, 1, 2] =
     Some (Some ([\<lparr>node_id = 0, node_x = - 2, node_y = 0\<rparr>, \<lparr>node_id = 1, node_x = - 1, node_y = 0\<rparr>],
                 [plain_way 1000000 [\<lparr>node_id = 0, node_x = - 2, node_y = 0\<rparr>]],
                 [(0, 1000000)]))"
    by (simp add: batch_convert_xodr_to_vector_map_and_json_multi_def dedup_documents_def dedup_road_def
        dedup_lane_def add_node_def save_merged_def initial_state_def road_lanes_def node_coordinates_def
        west_road_def driving_lane_def attr_or_def py_round4_integers randint_def plain_way_def Let_def
        colliding_hash_def hash_integral_values)
  have c: "way_key (plain_way 1000000 [\<lparr>node_id = 0, node_x = - 2, node_y = 0\<rparr>]) = ([(- 2, 0)], ''driving'', ''3.5'')"
    by (simp add: way_key_def plain_way_def node_coordinates_def)
  have d: "map (\<lambda>l. (rounded_coordinates road_without_primitive, attr_or (lane_type l) ''driving'',
               attr_or (lane_width_attr l) ''3.5'')) (map snd (road_lanes road_without_primitive)) =
     [([], ''driving'', ''3.5'')]"
    by (simp add: rounded_coordinates_def road_lanes_def road_without_primitive_def driving_lane_def attr_or_def)
  have e: "batch_convert_xodr_to_vector_map_and_json_multi colliding_hash
       [[road_without_primitive], [road_without_primitive]] [0, 1] = Some None"
    by (simp add: batch_convert_xodr_to_vector_map_and_json_multi_def dedup_documents_def dedup_road_def
        save_merged_def initial_state_def road_without_primitive_def)
  from a b c d e show ?thesis by simp
qed

section \<open>Where the two families of converters differ\<close>

text \<open>
  C9: the predecessor and successor of a lane record.  For a road whose link names the
  predecessor 5 and the successor 7, \<open>parse_xodr_to_vector_map\<close> gives the lane record
  these two identifiers, and the merging converter gives it none: its lane records are
  built with empty predecessor and successor lists and nothing reads the link.
\<close>

theorem dedup_drops_road_links:
  "parse_xodr_to_vector_map [linked_road] {} [0] =
     Some ([origin_node 0],
           [(plain_way 1000000 [origin_node 0])\<lparr>way_predecessor := [''5''], way_successor := [''7'']\<rparr>],
           [(0, 1000000)], {1000000}, []) \<and>
   batch_convert_xodr_to_vector_map_and_json_multi hsh [[linked_road]] [0] =
     Some (Some ([origin_node 0], [plain_way 1000000 [origin_node 0]], [(0, 1000000)]))"
  by (simp add: parse_xodr_to_vector_map_def vm_road_def vm_lane_def road_nodes_def road_lanes_def
      linked_road_def straight_road_def straight_geometry_def driving_lane_def randint_def link_ids_def
      attr_or_def origin_node_def plain_way_def Let_def
      batch_convert_xodr_to_vector_map_and_json_multi_def dedup_documents_def dedup_road_def
      dedup_lane_def add_node_def save_merged_def initial_state_def node_coordinates_def
      py_round4_def round_half_even_def)

theorem dedup_drops_road_links_witness:
  "batch_convert_xodr_to_vector_map_and_json_multi (\<lambda>k. 0) [[linked_road]] [0] =
     Some (Some ([origin_node 0], [plain_way 1000000 [origin_node 0]], [(0, 1000000)]))"
  using dedup_drops_road_links [of "\<lambda>k. 0"] by simp

lemma straight_bounds: "calculate_map_bounds [straight_road] = (- (7/2), 27/2, - (7/2), 7/2)"
  by (simp add: straight_road_def straight_geometry_def driving_lane_def calculate_map_bounds_def
      bounds_road_def fold_geometry_def inflate_lane_def road_lanes_def total_width_def x_end_def
      y_end_def Let_def)

lemma straight_global_bounds: "global_bounds [[straight_road]] = Some (- (7/2), 27/2, - (7/2), 7/2)"
  by (simp add: global_bounds_def merge_bounds_def straight_bounds)

text \<open>
  C4: the shape of the allocated grid.  For the straight road at resolution 0.4 the
  bounds are 7 high and 17 wide, a ratio of 17.5 rows and 42.5 columns.  The
  single-document converter truncates and allocates 17 rows of 42 cells, one less than
  the ceilings 18 and 43; the merging converter allocates the ceilings plus one, 19 rows
  of 44 cells.  At resolution 0.5, where the ratios are the integers 14 and 34, the
  single-document grid is exactly 14 rows of 34 cells, so no constant relates its shape
  to the ceilings.
\<close>

theorem single_grid_truncates:
  "(\<exists>grid T. parse_xodr_to_driveable_area [straight_road] (2/5) = Some (grid, T) \<and>
      map length grid = replicate 17 42) \<and>
   \<lceil>(7/2 - (- (7/2))) / (2/5 :: real)\<rceil> = 18 \<and> \<lceil>(27/2 - (- (7/2))) / (2/5 :: real)\<rceil> = 43 \<and>
   (\<exists>grid T. batch_convert_xodr_to_driveable_area_multi [[straight_road]] (2/5) = Some (grid, T) \<and>
      map length grid = replicate 19 44) \<and>
   (\<exists>grid T. parse_xodr_to_driveable_area [straight_road] (1/2) = Some (grid, T) \<and>
      map length grid = replicate 14 34) \<and>
   \<lceil>(7/2 - (- (7/2))) / (1/2 :: real)\<rceil> = 14 \<and> \<lceil>(27/2 - (- (7/2))) / (1/2 :: real)\<rceil> = 34"
proof -
  have a: "\<exists>grid T. parse_xodr_to_driveable_area [straight_road] (2/5) = Some (grid, T) \<and>
      map length grid = replicate 17 42"
    using grid_writes_shaped [OF shaped_np_full, of 17 42 "0::int"
        "document_writes (2/5) (7/2) (7/2) [straight_road]"]
    by (simp add: parse_xodr_to_driveable_area_def straight_bounds grid_shape_def py_int_def shaped_def)
  have b: "\<exists>grid T. batch_convert_xodr_to_driveable_area_multi [[straight_road]] (2/5) = Some (grid, T) \<and>
      map length grid = replicate 19 44"
    using grid_writes_shaped [OF shaped_np_full, of 19 44 "0::int"
        "concat (map (document_writes_multi (2/5) (- (7/2)) (- (7/2))) [[straight_road]])"]
    by (simp add: batch_convert_xodr_to_driveable_area_multi_def straight_global_bounds
        global_grid_shape_def shaped_def)
  have c: "\<exists>grid T. parse_xodr_to_driveable_area [straight_road] (1/2) = Some (grid, T) \<and>
      map length grid = replicate 14 34"
    using grid_writes_shaped [OF shaped_np_full, of 14 34 "0::int"
        "document_writes (1/2) (7/2) (7/2) [straight_road]"]
    by (simp add: parse_xodr_to_driveable_area_def straight_bounds grid_shape_def py_int_def shaped_def)
  from a b c show ?thesis by simp
qed

theorem single_grid_truncates_witness:
  "\<exists>grid T. parse_xodr_to_driveable_area [straight_road] (2/5) = Some (grid, T) \<and>
     map length grid = replicate 17 42"
  using single_grid_truncates by blast

lemma document_writes_multi_all_one:
  "\<forall>w\<in>set (concat (map (document_writes_multi resolution gx gy) docs)). snd w = 1"
  by (auto simp: document_writes_multi_def lane_writes_multi_def lateral_cells_def Let_def
      split: option.splits)

lemma py_int_of_nat: "py_int (7 + real i) = 7 + int i"
proof -
  have "7 + real i = real_of_int (7 + int i)" by simp
  then have "\<lfloor>7 + real i\<rfloor> = 7 + int i" by (metis floor_of_int)
  then show ?thesis by (simp add: py_int_def)
qed

lemma straight_single_columns:
  assumes "w \<in> set (document_writes (1/2) (7/2) (7/2) [straight_road])"
  shows "snd (fst w) < 27"
proof -
  from assms obtain i v where i: "i < 20" and w: "snd (fst w) = py_int ((7/2 + real i * (1/2)) / (1/2))"
    by (auto simp: document_writes_def lane_writes_def lateral_cells_def road_lanes_def straight_road_def
        straight_geometry_def driving_lane_def centre_x_def py_range_def Let_def)
      (auto simp: py_int_def)
  have "(7/2 + real i * (1/2)) / (1/2) = 7 + real i" by simp
  with w have "snd (fst w) = 7 + int i" by (simp only: py_int_of_nat)
  with i show ?thesis by simp
qed

lemma py_range_21: "20 \<in> set (py_range (py_int (10 / (1/2)) + 1))"
  by (simp add: py_range_def py_int_def)

lemma arange_zero_offset: "0 \<in> set (np_arange (- (7/2)) (7/2 + 1/2) (1/2))"
proof -
  have "(7::nat) < nat \<lceil>((7/2 + 1/2) - (- (7/2))) / (1/2 :: real)\<rceil>" by simp
  then show ?thesis
    unfolding np_arange_def by (auto simp: image_iff intro!: bexI [of _ 7])
qed

text \<open>
  C3: the samples of the rasterizer.  For the straight road of length 10 at resolution
  0.5 the single-document converter steps over the arc lengths 0 to 9.5 only: the cell of
  row 7 and column 27, on which the centre line sample at arc length 10 lands, stays 0,
  while the merging converter, which takes one step more, sets it.  For a road whose only
  lane is a driving lane of width 0 the single-document converter writes nothing, while
  the merging converter samples the offset 0 and sets the cells of the centre line.
\<close>

theorem rasterizer_end_point_and_zero_width:
  "(\<exists>grid T. parse_xodr_to_driveable_area [straight_road] (1/2) = Some (grid, T) \<and> grid ! 7 ! 27 = 0) \<and>
   (\<exists>grid T. batch_convert_xodr_to_driveable_area_multi [[straight_road]] (1/2) = Some (grid, T) \<and>
      grid ! 7 ! 27 = 1) \<and>
   parse_xodr_to_driveable_area [zero_width_lane_road] (1/2) =
     Some (replicate 4 (replicate 4 0), calculate_transform_matrix 0 0) \<and>
   (\<exists>grid T. batch_convert_xodr_to_driveable_area_multi [[zero_width_lane_road]] (1/2) = Some (grid, T) \<and>
      grid ! 0 ! 0 = 1)"
proof -
  have a: "\<exists>grid T. parse_xodr_to_driveable_area [straight_road] (1/2) = Some (grid, T) \<and> grid ! 7 ! 27 = 0"
  proof -
    define ws where "ws = document_writes (1/2) (7/2) (7/2) [straight_road]"
    have "(7, 27) \<notin> fst ` set ws"
      using straight_single_columns unfolding ws_def by fastforce
    then have "map_of (rev ws) (7, 27) = None"
      by (simp add: map_of_eq_None_iff)
    then have "grid_writes 14 34 (np_full 14 34 (0::int)) ws ! nat 7 ! nat 27 = 0"
      by (subst grid_writes_lookup [OF shaped_np_full]) (simp_all add: np_full_def)
    then show ?thesis
      by (simp add: parse_xodr_to_driveable_area_def straight_bounds grid_shape_def py_int_def ws_def)
  qed
  have b: "\<exists>grid T. batch_convert_xodr_to_driveable_area_multi [[straight_road]] (1/2) = Some (grid, T) \<and>
      grid ! 7 ! 27 = 1"
  proof -
    define ws where "ws = concat (map (document_writes_multi (1/2) (- (7/2)) (- (7/2))) [[straight_road]])"
    have cell: "((7, 27), 1) \<in> set (lateral_cells (1/2) 0 (7/2) (27/2) (7/2))"
      unfolding lateral_cells_def using arange_zero_offset
      by (auto simp: image_iff py_int_def intro!: bexI [of _ 0])
    have "((7, 27), 1) \<in> set ws"
      unfolding ws_def document_writes_multi_def road_lanes_def lane_writes_multi_def
        straight_road_def straight_geometry_def driving_lane_def
      using py_range_21 cell by (auto simp: centre_x_def centre_y_def Let_def intro!: bexI [of _ 20])
    then have "(7, 27) \<in> fst ` set ws" by force
    moreover have "\<forall>w\<in>set ws. snd w = 1"
      unfolding ws_def by (rule document_writes_multi_all_one)
    ultimately have "map_of (rev ws) (7, 27) = Some 1" by (rule map_of_rev_const)
    then have "grid_writes 15 35 (np_full 15 35 (0::int)) ws ! nat 7 ! nat 27 = 1"
      by (subst grid_writes_lookup [OF shaped_np_full]) simp_all
    then show ?thesis
      by (simp add: batch_convert_xodr_to_driveable_area_multi_def straight_global_bounds
          global_grid_shape_def ws_def)
  qed
  have zb: "calculate_map_bounds [zero_width_lane_road] = (0, 2, 0, 2)"
    by (simp add: zero_width_lane_road_def east_primitive_def north_primitive_def driving_lane_def
        calculate_map_bounds_def bounds_road_def fold_geometry_def inflate_lane_def road_lanes_def
        total_width_def x_end_def y_end_def Let_def)
  have zw: "document_writes (1/2) 0 0 [zero_width_lane_road] = []"
    by (simp add: document_writes_def lane_writes_def road_lanes_def zero_width_lane_road_def
        driving_lane_def)
  have c: "parse_xodr_to_driveable_area [zero_width_lane_road] (1/2) =
     Some (replicate 4 (replicate 4 0), calculate_transform_matrix 0 0)"
    by (simp add: parse_xodr_to_driveable_area_def zb grid_shape_def py_int_def zw grid_writes_def
        np_full_def)
  have d: "\<exists>grid T. batch_convert_xodr_to_driveable_area_multi [[zero_width_lane_road]] (1/2) = Some (grid, T) \<and>
      grid ! 0 ! 0 = 1"
  proof -
    define ws where "ws = concat (map (document_writes_multi (1/2) 0 0) [[zero_width_lane_road]])"
    have zero: "0 \<in> set (np_arange (- 0) (0 + 1/2) (1/2))"
      by (simp add: np_arange_def)
    have cell: "((0, 0), 1) \<in> set (lateral_cells (1/2) 0 0 0 0)"
      unfolding lateral_cells_def using zero
      by (auto simp: image_iff py_int_def intro!: bexI [of _ 0])
    have r: "0 \<in> set (py_range (py_int (2 / (1/2)) + 1))"
      by (simp add: py_range_def py_int_def)
    have "((0, 0), 1) \<in> set ws"
      unfolding ws_def document_writes_multi_def road_lanes_def lane_writes_multi_def
        zero_width_lane_road_def east_primitive_def north_primitive_def driving_lane_def
      using r cell by (auto simp: centre_x_def centre_y_def Let_def intro!: bexI [of _ 0])
    then have "(0, 0) \<in> fst ` set ws" by force
    moreover have "\<forall>w\<in>set ws. snd w = 1"
      unfolding ws_def by (rule document_writes_multi_all_one)
    ultimately have "map_of (rev ws) (0, 0) = Some 1" by (rule map_of_rev_const)
    then have "grid_writes 5 5 (np_full 5 5 (0::int)) ws ! nat 0 ! nat 0 = 1"
      by (subst grid_writes_lookup [OF shaped_np_full]) simp_all
    then show ?thesis
      by (simp add: batch_convert_xodr_to_driveable_area_multi_def global_bounds_def merge_bounds_def zb
          global_grid_shape_def ws_def)
  qed
  from a b c d show ?thesis by blast
qed

theorem rasterizer_end_point_and_zero_width_witness:
  "parse_xodr_to_driveable_area [zero_width_lane_road] (1/2) =
     Some (replicate 4 (replicate 4 0), calculate_transform_matrix 0 0)"
  using rasterizer_end_point_and_zero_width by blast

end
